theory Spec2Isabelle
  imports Main "HOL-Library.AList"
begin

section \<open>Data model (lms.py, section Models)\<close>

text \<open>
  Every SQLAlchemy model class is a record with one field per column. A table is the
  list of its rows in insertion order; a fresh row gets the largest id of the table plus
  one, as SQLite does for an integer primary key. A \<open>DateTime\<close> is an integer count of
  seconds, so that \<open>timedelta(minutes=10)\<close> is 600. Nullable columns are options.
\<close>

type_synonym datetime = int

record user =
  u_id :: int
  u_name :: string
  u_email :: string
  u_password_hash :: string
  u_role :: string
  u_created_at :: datetime
  u_profile_pic :: "string option"
  u_phone :: "string option"
  u_address :: "string option"
  u_about :: "string option"

record trainer =
  t_id :: int
  t_name :: string
  t_email :: string
  t_expertise :: "string option"
  t_profile_pic :: "string option"
  t_phone :: "string option"
  t_address :: "string option"
  t_about :: "string option"

record batch =
  b_id :: int
  b_name :: string
  b_description :: "string option"
  b_created_at :: datetime
  b_trainer_id :: "int option"

record enrollment =
  e_id :: int
  e_user_id :: "int option"
  e_batch_id :: "int option"
  e_enrolled_at :: datetime

record recording =
  r_id :: int
  r_filename :: string
  r_original_name :: string
  r_upload_time :: datetime
  r_batch_id :: "int option"
  r_notes :: "string option"

record student_progress =
  sp_id :: int
  sp_user_id :: "int option"
  sp_recording_id :: "int option"
  sp_completed :: bool
  sp_completed_at :: "datetime option"

record otp_token =
  o_id :: int
  o_user_id :: int
  o_token :: string
  o_expires_at :: datetime

text \<open>
  The persistent state: the tables, and the upload directory \<open>UPLOAD_ROOT\<close> as an
  association list from (batch id, file name) to the file's content.
\<close>

record database =
  users :: "user list"
  trainers :: "trainer list"
  batches :: "batch list"
  enrollments :: "enrollment list"
  recordings :: "recording list"
  progress :: "student_progress list"
  otp_tokens :: "otp_token list"
  disk :: "((int \<times> string) \<times> string) list"

text \<open>
  The Flask session of one client: the keys \<open>user_id\<close> and \<open>reset_email\<close>, and the
  flashed messages (message, category), which Flask keeps in the session too.
\<close>

record session =
  user_id :: "int option"
  reset_email :: "string option"
  flashes :: "(string \<times> string) list"

text \<open>
  Library functions the handlers call and this repository does not define
  (werkzeug, Python built-ins). They are parameters of the model: every theorem holds
  for every choice of them. \<open>round_percent c t\<close> stands for the float expression
  \<open>round(c / t * 100)\<close> at a non-zero \<open>t\<close>.
\<close>

record lib =
  generate_password_hash :: "string \<Rightarrow> string"
  check_password_hash :: "string \<Rightarrow> string \<Rightarrow> bool"
  str_upper :: "string \<Rightarrow> string"
  str_lower :: "string \<Rightarrow> string"
  py_int :: "string \<Rightarrow> int option"
  secure_filename :: "string \<Rightarrow> string"
  round_percent :: "nat \<Rightarrow> nat \<Rightarrow> int"

datatype py_error =
    AttributeError | ZeroDivisionError | IsADirectoryError | OverflowError | BindError

text \<open>
  What a handler answers: a redirect to an endpoint (with its integer argument, if
  any), a rendered template, \<open>abort(code)\<close>, a JSON body with its HTTP status, a file's
  content, or an exception nothing catches.
\<close>

datatype response =
    Redirect string "int option"
  | Render string
  | Abort nat
  | Json nat string string
  | SendFile string
  | Crash py_error

datatype http_method = GET | POST

record upload_file =
  f_filename :: string
  f_content :: string

section \<open>Helpers\<close>

definition flash :: "session \<Rightarrow> string \<Rightarrow> string \<Rightarrow> session" where
  "flash s msg category = s\<lparr>flashes := flashes s @ [(msg, category)]\<rparr>"

definition next_id :: "int list \<Rightarrow> int" where
  "next_id ids = fold max ids 0 + 1"

definition ALLOWED_EXTENSIONS :: "string list" where
  "ALLOWED_EXTENSIONS =
     [''mp4'', ''mkv'', ''webm'', ''wav'', ''mp3'', ''ogg'', ''png'', ''jpg'', ''jpeg'',
      ''gif'', ''pdf'', ''doc'', ''docx'', ''xls'', ''xlsx'', ''ppt'', ''pptx'', ''zip'',
      ''rar'', ''txt'', ''csv'', ''json'', ''py'', ''ipynb'', ''html'', ''css'', ''js'']"

text \<open>\<open>filename.rsplit('.', 1)[1]\<close>, for a file name that holds a dot.\<close>

definition rsplit_ext :: "string \<Rightarrow> string" where
  "rsplit_ext filename = rev (takeWhile (\<lambda>c. c \<noteq> CHR ''.'') (rev filename))"

definition allowed_file :: "lib \<Rightarrow> string \<Rightarrow> bool" where
  "allowed_file L filename \<longleftrightarrow>
     CHR ''.'' \<in> set filename \<and> str_lower L (rsplit_ext filename) \<in> set ALLOWED_EXTENSIONS"

text \<open>The queries \<open>Model.query.get(id)\<close>; \<open>find\<close> is \<open>.first()\<close>.\<close>

definition get_user :: "database \<Rightarrow> int \<Rightarrow> user option" where
  "get_user db uid = find (\<lambda>u. u_id u = uid) (users db)"

definition get_trainer :: "database \<Rightarrow> int \<Rightarrow> trainer option" where
  "get_trainer db tid = find (\<lambda>t. t_id t = tid) (trainers db)"

definition get_batch :: "database \<Rightarrow> int \<Rightarrow> batch option" where
  "get_batch db bid = find (\<lambda>b. b_id b = bid) (batches db)"

definition get_recording :: "database \<Rightarrow> int \<Rightarrow> recording option" where
  "get_recording db rid = find (\<lambda>r. r_id r = rid) (recordings db)"

text \<open>The relationships \<open>batch.trainer\<close>, \<open>recording.batch\<close>, \<open>batch.recordings\<close>.\<close>

definition batch_trainer :: "database \<Rightarrow> batch \<Rightarrow> trainer option" where
  "batch_trainer db b =
     (case b_trainer_id b of None \<Rightarrow> None | Some tid \<Rightarrow> get_trainer db tid)"

definition recording_batch :: "database \<Rightarrow> recording \<Rightarrow> batch option" where
  "recording_batch db r =
     (case r_batch_id r of None \<Rightarrow> None | Some bid \<Rightarrow> get_batch db bid)"

definition batch_recordings :: "database \<Rightarrow> batch \<Rightarrow> recording list" where
  "batch_recordings db b = filter (\<lambda>r. r_batch_id r = Some (b_id b)) (recordings db)"

text \<open>
  \<open>inject_helpers\<close>: \<open>current_user\<close> reads the session (\<open>not uid\<close> holds for a missing
  key and for 0), \<open>is_admin\<close> and \<open>is_trainer\<close> compare the role string.
\<close>

definition current_user :: "database \<Rightarrow> session \<Rightarrow> user option" where
  "current_user db s =
     (case user_id s of
        None \<Rightarrow> None
      | Some uid \<Rightarrow> if uid = 0 then None else get_user db uid)"

definition is_admin :: "database \<Rightarrow> session \<Rightarrow> bool" where
  "is_admin db s =
     (case current_user db s of None \<Rightarrow> False | Some u \<Rightarrow> u_role u = ''admin'')"

definition is_trainer :: "database \<Rightarrow> session \<Rightarrow> bool" where
  "is_trainer db s =
     (case current_user db s of None \<Rightarrow> False | Some u \<Rightarrow> u_role u = ''trainer'')"

text \<open>
  \<open>batch.trainer and batch.trainer.email == user.email\<close>: without an assigned trainer
  the conjunction stops before \<open>user.email\<close> is read; with one, reading \<open>user.email\<close> of
  a missing user raises AttributeError.
\<close>

definition is_assigned_trainer :: "database \<Rightarrow> batch \<Rightarrow> user option \<Rightarrow> py_error + bool" where
  "is_assigned_trainer db b uo =
     (case batch_trainer db b of
        None \<Rightarrow> Inr False
      | Some t \<Rightarrow>
          (case uo of
             None \<Rightarrow> Inl AttributeError
           | Some u \<Rightarrow> Inr (t_email t = u_email u)))"

section \<open>Recordings: upload, download, delete\<close>

definition upload_invalid :: "database \<Rightarrow> session \<Rightarrow> batch \<Rightarrow> response \<times> database \<times> session" where
  "upload_invalid db s b =
     (Redirect ''view_batch'' (Some (b_id b)), db,
      flash s ''Invalid file type or no file selected. Please check allowed formats.'' ''danger'')"

definition upload ::
  "lib \<Rightarrow> datetime \<Rightarrow> database \<Rightarrow> session \<Rightarrow> int \<Rightarrow> upload_file option \<Rightarrow> string option
     \<Rightarrow> response \<times> database \<times> session" where
  "upload L now db s batch_id file notes =
     (case get_batch db batch_id of
        None \<Rightarrow> (Abort 404, db, s)
      | Some b \<Rightarrow>
          (case is_assigned_trainer db b (current_user db s) of
             Inl e \<Rightarrow> (Crash e, db, s)
           | Inr assigned \<Rightarrow>
               if \<not> (is_trainer db s \<and> assigned) then
                 (Abort 403, db,
                  flash s ''Only the assigned trainer can upload recordings to this batch.'' ''danger'')
               else
                 (case file of
                    None \<Rightarrow> upload_invalid db s b
                  | Some f \<Rightarrow>
                      if f_filename f \<noteq> [] \<and> allowed_file L (f_filename f) then
                        (let filename = secure_filename L (f_filename f) in
                         if filename = [] then (Crash IsADirectoryError, db, s)
                         else
                           (Redirect ''view_batch'' (Some (b_id b)),
                            db\<lparr>recordings := recordings db @
                                  [\<lparr>r_id = next_id (map r_id (recordings db)),
                                    r_filename = filename,
                                    r_original_name = f_filename f,
                                    r_upload_time = now,
                                    r_batch_id = Some (b_id b),
                                    r_notes = notes\<rparr>],
                               disk := AList.update (b_id b, filename) (f_content f) (disk db)\<rparr>,
                            flash s ''Uploaded successfully'' ''success''))
                      else upload_invalid db s b)))"

text \<open>
  \<open>download\<close> is \<open>send_from_directory\<close> on the batch's directory: the file's content, or
  404 when there is no such file. The handler never reads the session; the session is
  an argument here only because every handler runs with one.
\<close>

definition download :: "database \<Rightarrow> session \<Rightarrow> int \<Rightarrow> string \<Rightarrow> response \<times> database \<times> session" where
  "download db s batch_id filename =
     (case map_of (disk db) (batch_id, filename) of
        None \<Rightarrow> (Abort 404, db, s)
      | Some content \<Rightarrow> (SendFile content, db, s))"

text \<open>
  \<open>delete_recording\<close>: \<open>os.remove\<close> when the file is there, then
  \<open>db.session.delete(r)\<close>, which deletes the row and, the relationship
  \<open>Recording.progress\<close> having no delete cascade, sets \<open>recording_id\<close> of the
  recording's progress rows to NULL.
\<close>

definition remove_file :: "database \<Rightarrow> int option \<Rightarrow> string \<Rightarrow> ((int \<times> string) \<times> string) list" where
  "remove_file db bid filename =
     (case bid of
        None \<Rightarrow> disk db
      | Some i \<Rightarrow> AList.delete (i, filename) (disk db))"

definition delete_recording :: "database \<Rightarrow> session \<Rightarrow> int \<Rightarrow> response \<times> database \<times> session" where
  "delete_recording db s rec_id =
     (case get_recording db rec_id of
        None \<Rightarrow> (Abort 404, db, s)
      | Some r \<Rightarrow>
          (case recording_batch db r of
             None \<Rightarrow> (Crash AttributeError, db, s)
           | Some b \<Rightarrow>
               (case is_assigned_trainer db b (current_user db s) of
                  Inl e \<Rightarrow> (Crash e, db, s)
                | Inr assigned \<Rightarrow>
                    if \<not> (is_trainer db s \<and> assigned) then
                      (Abort 403, db,
                       flash s ''Only the assigned trainer can delete content.'' ''danger'')
                    else
                      (Redirect ''view_batch'' (r_batch_id r),
                       db\<lparr>recordings := filter (\<lambda>x. r_id x \<noteq> r_id r) (recordings db),
                          progress := map (\<lambda>p. if sp_recording_id p = Some (r_id r)
                                                then p\<lparr>sp_recording_id := None\<rparr> else p)
                                          (progress db),
                          disk := remove_file db (r_batch_id r) (r_filename r)\<rparr>,
                       flash s ''Recording deleted'' ''info''))))"

section \<open>Registration\<close>

text \<open>
  \<open>register\<close>: \<open>name\<close>, \<open>email\<close> and \<open>password\<close> are the form's required fields,
  \<open>role_field\<close> is \<open>request.form.get('role', 'student')\<close> before its default.
\<close>

definition register ::
  "lib \<Rightarrow> datetime \<Rightarrow> database \<Rightarrow> session \<Rightarrow> http_method \<Rightarrow> string \<Rightarrow> string \<Rightarrow> string
     \<Rightarrow> string option \<Rightarrow> response \<times> database \<times> session" where
  "register L now db s method name email password role_field =
     (let admin_exists = (find (\<lambda>u. u_role u = ''admin'') (users db) \<noteq> None) in
      if method = POST then
        (let role = (case role_field of None \<Rightarrow> ''student'' | Some r \<Rightarrow> r) in
         if find (\<lambda>u. u_email u = email) (users db) \<noteq> None then
           (Redirect ''register'' None, db, flash s ''Email already registered'' ''danger'')
         else if role = ''admin'' \<and> admin_exists then
           (Redirect ''register'' None, db,
            flash s ''An admin already exists. Cannot create another admin.'' ''danger'')
         else
           (Redirect ''login'' None,
            db\<lparr>users := users db @
                  [\<lparr>u_id = next_id (map u_id (users db)),
                    u_name = name,
                    u_email = email,
                    u_password_hash = generate_password_hash L password,
                    u_role = role,
                    u_created_at = now,
                    u_profile_pic = None,
                    u_phone = None,
                    u_address = None,
                    u_about = None\<rparr>]\<rparr>,
            flash s ''Account created. Please login.'' ''success''))
      else (Render ''register.html'', db, s))"

section \<open>Password recovery\<close>

text \<open>
  \<open>generate_and_send_otp\<close>: \<open>hex\<close> is what \<open>secrets.token_hex(3)\<close> returns and \<open>mail_ok\<close>
  tells whether \<open>mail.send\<close> returns or raises; both come from outside the program.
  The first component of the result is the function's return value.
\<close>

definition generate_and_send_otp ::
  "lib \<Rightarrow> datetime \<Rightarrow> string \<Rightarrow> bool \<Rightarrow> database \<Rightarrow> session \<Rightarrow> int \<Rightarrow> string
     \<Rightarrow> string option \<times> database \<times> session" where
  "generate_and_send_otp L now hex mail_ok db s uid email =
     (let token = str_upper L hex;
          expires = now + 600;
          kept = filter (\<lambda>k. o_user_id k \<noteq> uid) (otp_tokens db);
          db' = db\<lparr>otp_tokens := kept @
                  [\<lparr>o_id = next_id (map o_id kept),
                    o_user_id = uid,
                    o_token = token,
                    o_expires_at = expires\<rparr>]\<rparr>
      in if mail_ok then
           (Some token, db',
            flash s (''A recovery code has been sent to '' @ email @ ''. (Valid for 10 minutes).'')
              ''warning'')
         else
           (None, db',
            flash
              (flash s
                 ''Email sending failed. Please check your MAIL_USERNAME/PASSWORD or try again later.''
                 ''danger'')
              (''FOR DEV TESTING: Your OTP is '' @ token) ''info''))"

definition forgot_password ::
  "lib \<Rightarrow> datetime \<Rightarrow> string \<Rightarrow> bool \<Rightarrow> database \<Rightarrow> session \<Rightarrow> http_method \<Rightarrow> string
     \<Rightarrow> response \<times> database \<times> session" where
  "forgot_password L now hex mail_ok db s method email =
     (if method = POST then
        (case find (\<lambda>u. u_email u = email) (users db) of
           None \<Rightarrow>
             (Redirect ''login'' None, db,
              flash s ''If an account exists, a recovery email has been sent.'' ''info'')
         | Some user \<Rightarrow>
             (case generate_and_send_otp L now hex mail_ok db s (u_id user) (u_email user) of
                (_, db', s') \<Rightarrow>
                  (Redirect ''reset_password'' None, db', s'\<lparr>reset_email := Some email\<rparr>)))
      else (Render ''forgot_password.html'', db, s))"

definition reset_invalid :: "database \<Rightarrow> session \<Rightarrow> response \<times> database \<times> session" where
  "reset_invalid db s =
     (Redirect ''reset_password'' None, db, flash s ''Invalid or expired recovery code.'' ''danger'')"

definition reset_weak :: "database \<Rightarrow> session \<Rightarrow> response \<times> database \<times> session" where
  "reset_weak db s =
     (Redirect ''reset_password'' None, db,
      flash s ''New password must be at least 6 characters long.'' ''danger'')"

definition reset_not_started :: "database \<Rightarrow> session \<Rightarrow> response \<times> database \<times> session" where
  "reset_not_started db s =
     (Redirect ''forgot_password'' None, db,
      flash s ''Please start the password recovery process first.'' ''danger'')"

text \<open>
  \<open>reset_password\<close>: \<open>token\<close> and \<open>new_password\<close> are the form fields of a POST.
  \<open>user.set_password\<close> and \<open>db.session.delete(otp_entry)\<close> write the rows with the
  primary keys of the objects they were called on.
\<close>

definition reset_password ::
  "lib \<Rightarrow> datetime \<Rightarrow> database \<Rightarrow> session \<Rightarrow> http_method \<Rightarrow> string \<Rightarrow> string
     \<Rightarrow> response \<times> database \<times> session" where
  "reset_password L now db s method token new_password =
     (case reset_email s of
        None \<Rightarrow> reset_not_started db s
      | Some email \<Rightarrow>
          if email = [] then reset_not_started db s
          else
            (case find (\<lambda>u. u_email u = email) (users db) of
               None \<Rightarrow>
                 (Redirect ''login'' None, db, (flash s ''User not found.'' ''danger'')\<lparr>reset_email := None\<rparr>)
             | Some user \<Rightarrow>
                 if method = POST then
                   (case find (\<lambda>k. o_user_id k = u_id user \<and> o_token k = str_upper L token)
                              (otp_tokens db) of
                      None \<Rightarrow> reset_invalid db s
                    | Some otp_entry \<Rightarrow>
                        if o_expires_at otp_entry < now then reset_invalid db s
                        else if length new_password < 6 then reset_weak db s
                        else
                          (Redirect ''login'' None,
                           db\<lparr>users := map (\<lambda>u. if u_id u = u_id user
                                                 then u\<lparr>u_password_hash := generate_password_hash L new_password\<rparr>
                                                 else u) (users db),
                              otp_tokens := filter (\<lambda>k. o_id k \<noteq> o_id otp_entry) (otp_tokens db)\<rparr>,
                           flash (s\<lparr>reset_email := None\<rparr>)
                             ''Password successfully reset. You can now log in.'' ''success''))
                 else (Render ''reset_password.html'', db, s)))"

section \<open>Enrollment\<close>

text \<open>
  \<open>enroll_student\<close>: the two form fields as \<open>request.form.get\<close> returns them; \<open>not x\<close>
  holds for a missing field and for the empty string; \<open>py_int\<close> is \<open>int(...)\<close>, with
  \<open>None\<close> for the ValueError the handler catches.
\<close>

definition falsy :: "string option \<Rightarrow> bool" where
  "falsy x = (case x of None \<Rightarrow> True | Some v \<Rightarrow> v = [])"

definition enroll_student ::
  "lib \<Rightarrow> datetime \<Rightarrow> database \<Rightarrow> session \<Rightarrow> string option \<Rightarrow> string option
     \<Rightarrow> response \<times> database \<times> session" where
  "enroll_student L now db s user_id_str batch_id_str =
     (if \<not> is_admin db s then (Abort 403, db, s)
      else if falsy user_id_str \<or> falsy batch_id_str then
        (Redirect ''admin_dashboard'' None, db,
         flash s ''Please select both a student and a batch.'' ''danger'')
      else
        (case (Option.bind user_id_str (py_int L), Option.bind batch_id_str (py_int L)) of
           (Some uid, Some bid) \<Rightarrow>
             if find (\<lambda>e. e_user_id e = Some uid \<and> e_batch_id e = Some bid) (enrollments db) \<noteq> None
             then (Redirect ''admin_dashboard'' None, db, flash s ''Student already enrolled'' ''info'')
             else
               (Redirect ''admin_dashboard'' None,
                db\<lparr>enrollments := enrollments db @
                      [\<lparr>e_id = next_id (map e_id (enrollments db)),
                        e_user_id = Some uid,
                        e_batch_id = Some bid,
                        e_enrolled_at = now\<rparr>]\<rparr>,
                flash s ''Student enrolled'' ''success'')
         | _ \<Rightarrow>
             (Redirect ''admin_dashboard'' None, db, flash s ''Invalid selection data.'' ''danger'')))"

section \<open>Security update (e-mail and password)\<close>

text \<open>
  Step 2 of \<open>update_security\<close>: \<open>Inl\<close> is the early return for a short password,
  \<open>Inr\<close> carries the user object after \<open>set_password\<close> (or untouched).
\<close>

definition security_password ::
  "lib \<Rightarrow> user \<Rightarrow> session \<Rightarrow> string option \<Rightarrow> session + user \<times> session" where
  "security_password L user s new_password =
     (if falsy new_password then Inr (user, s)
      else
        (case new_password of
           None \<Rightarrow> Inr (user, s)
         | Some p \<Rightarrow>
             if length p < 6 then
               Inl (flash s ''New password must be at least 6 characters long.'' ''danger'')
             else
               Inr (user\<lparr>u_password_hash := generate_password_hash L p\<rparr>,
                    flash s ''Password updated successfully.'' ''success'')))"

text \<open>
  Step 3: \<open>user.email\<close> is assigned first, and the trainer row is then looked up with
  \<open>user.email\<close>, which is the new address by then. \<open>Inl\<close> is the early return for an
  address another account holds.
\<close>

definition security_email ::
  "database \<Rightarrow> user \<Rightarrow> session \<Rightarrow> string option \<Rightarrow> session + user \<times> trainer list \<times> session" where
  "security_email db user s new_email =
     (case new_email of
        None \<Rightarrow> Inr (user, trainers db, s)
      | Some e \<Rightarrow>
          if e \<noteq> [] \<and> e \<noteq> u_email user then
            (if find (\<lambda>u. u_email u = e \<and> u_id u \<noteq> u_id user) (users db) \<noteq> None then
               Inl (flash s ''Email address is already in use by another account.'' ''danger'')
             else
               (let user' = user\<lparr>u_email := e\<rparr>;
                    trainers' =
                      (if u_role user' = ''trainer'' then
                         (case find (\<lambda>t. t_email t = u_email user') (trainers db) of
                            None \<Rightarrow> trainers db
                          | Some tr \<Rightarrow>
                              map (\<lambda>t. if t_id t = t_id tr then t\<lparr>t_email := e\<rparr> else t)
                                  (trainers db))
                       else trainers db)
                in Inr (user', trainers', flash s ''Email updated successfully.'' ''success'')))
          else Inr (user, trainers db, s))"

text \<open>
  \<open>update_security\<close>: an early return leaves without \<open>db.session.commit()\<close>, so nothing
  of the request is stored; the commit at the end writes the two columns of the user
  row the handler may have assigned (by primary key) and the trainer table.
\<close>

definition update_security ::
  "lib \<Rightarrow> database \<Rightarrow> session \<Rightarrow> string \<Rightarrow> string option \<Rightarrow> string option
     \<Rightarrow> response \<times> database \<times> session" where
  "update_security L db s current_password new_password new_email =
     (case current_user db s of
        None \<Rightarrow> (Abort 403, db, s)
      | Some user \<Rightarrow>
          if \<not> check_password_hash L (u_password_hash user) current_password then
            (Redirect ''profile'' None, db, flash s ''Incorrect current password.'' ''danger'')
          else
            (case security_password L user s new_password of
               Inl s1 \<Rightarrow> (Redirect ''profile'' None, db, s1)
             | Inr (user1, s1) \<Rightarrow>
                 (case security_email db user1 s1 new_email of
                    Inl s2 \<Rightarrow> (Redirect ''profile'' None, db, s2)
                  | Inr (user2, trainers2, s2) \<Rightarrow>
                      (Redirect ''profile'' None,
                       db\<lparr>users := map (\<lambda>u. if u_id u = u_id user
                                             then u\<lparr>u_password_hash := u_password_hash user2,
                                                    u_email := u_email user2\<rparr>
                                             else u) (users db),
                          trainers := trainers2\<rparr>,
                       s2))))"

section \<open>Progress\<close>

text \<open>
  The value of \<open>recording_id\<close> in the JSON body, as \<open>data.get('recording_id')\<close> returns
  it: \<open>None\<close> for an absent key or \<open>null\<close>, an integer of any size, a list or a dict.
  (Strings, floating-point numbers and booleans are left out: SQLite stores them under
  its affinity rules, which a table of integer ids does not express.)
\<close>

datatype json = JNull | JInt int | JArray | JObject

text \<open>The integers SQLite stores: signed, 64 bits.\<close>

definition sqlite_integer :: "int \<Rightarrow> bool" where
  "sqlite_integer i \<longleftrightarrow> - (2 ^ 63) \<le> i \<and> i < 2 ^ 63"

text \<open>
  Binding the value as a query parameter: \<open>None\<close> compares with \<open>IS NULL\<close>, an integer
  of 64 bits is passed on, a larger one makes the driver raise OverflowError, and a list
  or a dict is refused by the driver with a binding error.
\<close>

definition bind_parameter :: "json \<Rightarrow> py_error + int option" where
  "bind_parameter v =
     (case v of
        JNull \<Rightarrow> Inr None
      | JInt i \<Rightarrow> if sqlite_integer i then Inr (Some i) else Inl OverflowError
      | JArray \<Rightarrow> Inl BindError
      | JObject \<Rightarrow> Inl BindError)"

text \<open>
  \<open>update_progress\<close>: after the role test, the first statement that touches the
  database is the query \<open>filter_by(user_id=user.id, recording_id=recording_id).first()\<close>,
  which binds \<open>recording_id\<close>; an exception there ends the request (HTTP 500) with
  nothing stored. \<open>filter_by(recording_id=None)\<close> matches the rows whose column is NULL.
\<close>

definition update_progress ::
  "datetime \<Rightarrow> database \<Rightarrow> session \<Rightarrow> json \<Rightarrow> response \<times> database \<times> session" where
  "update_progress now db s recording_id =
     (case current_user db s of
        None \<Rightarrow> (Json 401 ''error'' ''Unauthorized'', db, s)
      | Some user \<Rightarrow>
          if u_role user \<noteq> ''student'' then (Json 401 ''error'' ''Unauthorized'', db, s)
          else
            (case bind_parameter recording_id of
               Inl err \<Rightarrow> (Crash err, db, s)
             | Inr rid \<Rightarrow>
                 (case find (\<lambda>p. sp_user_id p = Some (u_id user) \<and> sp_recording_id p = rid)
                            (progress db) of
                    None \<Rightarrow>
                      (Json 200 ''success'' ''Progress updated'',
                       db\<lparr>progress := progress db @
                             [\<lparr>sp_id = next_id (map sp_id (progress db)),
                               sp_user_id = Some (u_id user),
                               sp_recording_id = rid,
                               sp_completed = True,
                               sp_completed_at = Some now\<rparr>]\<rparr>,
                       s)
                  | Some pr \<Rightarrow>
                      (Json 200 ''success'' ''Progress updated'',
                       db\<lparr>progress := map (\<lambda>p. if sp_id p = sp_id pr
                                                 then p\<lparr>sp_completed := True,
                                                        sp_completed_at := Some now\<rparr>
                                                 else p) (progress db)\<rparr>,
                       s))))"

section \<open>The student branch of dashboard\<close>

text \<open>
  The query \<open>StudentProgress.query.filter_by(user_id, completed=True).join(Recording)
  .filter(Recording.batch_id == batch.id).count()\<close>: the number of pairs of a completed
  progress row of the student and a recording of the batch with that row's recording id.
\<close>

definition completed_recordings :: "database \<Rightarrow> int \<Rightarrow> batch \<Rightarrow> nat" where
  "completed_recordings db uid b =
     length (concat (map
       (\<lambda>p. filter (\<lambda>r. sp_recording_id p = Some (r_id r) \<and> r_batch_id r = Some (b_id b))
                    (recordings db))
       (filter (\<lambda>p. sp_user_id p = Some uid \<and> sp_completed p) (progress db))))"

text \<open>The inner loop \<open>for rec in all_recordings: ... break\<close>.\<close>

fun first_incomplete :: "database \<Rightarrow> int \<Rightarrow> recording list \<Rightarrow> recording option" where
  "first_incomplete db uid [] = None"
| "first_incomplete db uid (rec # recs) =
     (if find (\<lambda>p. sp_user_id p = Some uid \<and> sp_recording_id p = Some (r_id rec) \<and> sp_completed p)
              (progress db) = None
      then Some rec
      else first_incomplete db uid recs)"

record lesson =
  batch_name :: string
  recording_name :: string
  recording_id :: int
  batch_id :: int

text \<open>
  The loop's variables; \<open>progress_counts\<close> collects, in the order of the enrollments,
  the two numbers the loop formats into \<open>e.progress_count\<close>.
\<close>

record metrics =
  total_available :: nat
  total_completed :: nat
  next_lesson :: "lesson option"
  progress_counts :: "(nat \<times> nat) list"

definition enrollment_batch :: "database \<Rightarrow> enrollment \<Rightarrow> batch option" where
  "enrollment_batch db e =
     (case e_batch_id e of None \<Rightarrow> None | Some bid \<Rightarrow> get_batch db bid)"

fun student_loop :: "database \<Rightarrow> user \<Rightarrow> enrollment list \<Rightarrow> metrics \<Rightarrow> py_error + metrics" where
  "student_loop db u [] m = Inr m"
| "student_loop db u (e # es) m =
     (case enrollment_batch db e of
        None \<Rightarrow> Inl AttributeError
      | Some b \<Rightarrow>
          (let all_recordings = batch_recordings db b;
               total_recordings = length all_recordings;
               completed = completed_recordings db (u_id u) b;
               nl = (case next_lesson m of
                       Some x \<Rightarrow> Some x
                     | None \<Rightarrow>
                         map_option
                           (\<lambda>rec. \<lparr>batch_name = b_name b,
                                   recording_name = r_original_name rec,
                                   recording_id = r_id rec,
                                   batch_id = b_id b\<rparr>)
                           (first_incomplete db (u_id u) all_recordings))
           in student_loop db u es
                \<lparr>total_available = total_available m + total_recordings,
                 total_completed = total_completed m + completed,
                 next_lesson = nl,
                 progress_counts = progress_counts m @ [(completed, total_recordings)]\<rparr>))"

text \<open>Python's \<open>/\<close> raises on a zero divisor.\<close>

definition py_percent :: "lib \<Rightarrow> nat \<Rightarrow> nat \<Rightarrow> py_error + int" where
  "py_percent L c t = (if t = 0 then Inl ZeroDivisionError else Inr (round_percent L c t))"

text \<open>
  \<open>round((total_completed / total_available * 100) if total_available > 0 else 0)\<close>.
\<close>

definition overall_progress_percent :: "lib \<Rightarrow> nat \<Rightarrow> nat \<Rightarrow> py_error + int" where
  "overall_progress_percent L c t = (if t > 0 then py_percent L c t else Inr 0)"

record student_view =
  sv_progress_counts :: "(nat \<times> nat) list"
  sv_overall_progress_percent :: int
  sv_next_lesson :: "lesson option"

definition dashboard_student :: "lib \<Rightarrow> database \<Rightarrow> user \<Rightarrow> py_error + student_view" where
  "dashboard_student L db u =
     (case student_loop db u (filter (\<lambda>e. e_user_id e = Some (u_id u)) (enrollments db))
             \<lparr>total_available = 0, total_completed = 0, next_lesson = None, progress_counts = []\<rparr> of
        Inl err \<Rightarrow> Inl err
      | Inr m \<Rightarrow>
          (case overall_progress_percent L (total_completed m) (total_available m) of
             Inl err \<Rightarrow> Inl err
           | Inr pct \<Rightarrow>
               Inr \<lparr>sv_progress_counts = progress_counts m,
                    sv_overall_progress_percent = pct,
                    sv_next_lesson = next_lesson m\<rparr>))"

section \<open>Requests\<close>

text \<open>
  The handlers above as one step function. \<open>env\<close> holds what a request takes from
  outside the program: the clock, the random token and whether the mail goes out.
\<close>

record env =
  env_now :: datetime
  env_hex :: string
  env_mail_ok :: bool

datatype request =
    Register http_method string string string "string option"
  | ForgotPassword http_method string
  | ResetPassword http_method string string
  | EnrollStudent "string option" "string option"
  | Upload int "upload_file option" "string option"
  | Download int string
  | DeleteRecording int
  | UpdateSecurity string "string option" "string option"
  | UpdateProgress json

fun handle :: "lib \<Rightarrow> env \<Rightarrow> database \<Rightarrow> session \<Rightarrow> request \<Rightarrow> response \<times> database \<times> session" where
  "handle L E db s (Register m name email password role) =
     register L (env_now E) db s m name email password role"
| "handle L E db s (ForgotPassword m email) =
     forgot_password L (env_now E) (env_hex E) (env_mail_ok E) db s m email"
| "handle L E db s (ResetPassword m token new_password) =
     reset_password L (env_now E) db s m token new_password"
| "handle L E db s (EnrollStudent user_id_str batch_id_str) =
     enroll_student L (env_now E) db s user_id_str batch_id_str"
| "handle L E db s (Upload bid file notes) = upload L (env_now E) db s bid file notes"
| "handle L E db s (Download bid filename) = download db s bid filename"
| "handle L E db s (DeleteRecording rec_id) = delete_recording db s rec_id"
| "handle L E db s (UpdateSecurity current_password new_password new_email) =
     update_security L db s current_password new_password new_email"
| "handle L E db s (UpdateProgress rid) = update_progress (env_now E) db s rid"

text \<open>
  A run of the program: requests of any clients, each with its own session and
  environment, applied to the database one after the other.
\<close>

fun run :: "lib \<Rightarrow> database \<Rightarrow> (env \<times> session \<times> request) list \<Rightarrow> database" where
  "run L db [] = db"
| "run L db ((E, s, req) # rest) = run L (fst (snd (handle L E db s req))) rest"

section \<open>Properties of a database state\<close>

text \<open>At most one recovery code per account.\<close>

definition otp_unique :: "database \<Rightarrow> bool" where
  "otp_unique db = distinct (map o_user_id (otp_tokens db))"

text \<open>The primary keys of the trainer, recording and progress tables.\<close>

definition trainer_pk :: "database \<Rightarrow> bool" where
  "trainer_pk db = distinct (map t_id (trainers db))"

definition recording_pk :: "database \<Rightarrow> bool" where
  "recording_pk db = distinct (map r_id (recordings db))"

definition progress_pk :: "database \<Rightarrow> bool" where
  "progress_pk db = distinct (map sp_id (progress db))"

text \<open>Every recording id is one SQLite can store.\<close>

definition recording_ids_storable :: "database \<Rightarrow> bool" where
  "recording_ids_storable db = list_all (\<lambda>r. sqlite_integer (r_id r)) (recordings db)"

definition enrollment_rows :: "database \<Rightarrow> int \<Rightarrow> int \<Rightarrow> enrollment list" where
  "enrollment_rows db uid bid =
     filter (\<lambda>e. e_user_id e = Some uid \<and> e_batch_id e = Some bid) (enrollments db)"

definition admins :: "database \<Rightarrow> user list" where
  "admins db = filter (\<lambda>u. u_role u = ''admin'') (users db)"

text \<open>
  Whether the student has a completed progress row for the recording: the test of the
  loop in \<open>first_incomplete\<close>.
\<close>

definition completed_by :: "database \<Rightarrow> int \<Rightarrow> recording \<Rightarrow> bool" where
  "completed_by db uid rec =
     (find (\<lambda>p. sp_user_id p = Some uid \<and> sp_recording_id p = Some (r_id rec) \<and> sp_completed p)
           (progress db) \<noteq> None)"

section \<open>A sample library and sample states for concrete instances\<close>

definition ascii_upper :: "string \<Rightarrow> string" where
  "ascii_upper =
     map (\<lambda>c. case map_of (zip ''abcdefghijklmnopqrstuvwxyz'' ''ABCDEFGHIJKLMNOPQRSTUVWXYZ'') c of
                None \<Rightarrow> c | Some d \<Rightarrow> d)"

definition ascii_lower :: "string \<Rightarrow> string" where
  "ascii_lower =
     map (\<lambda>c. case map_of (zip ''ABCDEFGHIJKLMNOPQRSTUVWXYZ'' ''abcdefghijklmnopqrstuvwxyz'') c of
                None \<Rightarrow> c | Some d \<Rightarrow> d)"

definition digits_int :: "string \<Rightarrow> int option" where
  "digits_int str =
     (if str \<noteq> [] \<and> list_all (\<lambda>c. c \<in> set ''0123456789'') str
      then Some (foldl (\<lambda>a c. 10 * a +
                   (case map_of (zip ''0123456789'' [0, 1, 2, 3, 4, 5, 6, 7, 8, 9]) c of
                      None \<Rightarrow> 0 | Some d \<Rightarrow> d)) 0 str)
      else None)"

definition sample_lib :: lib where
  "sample_lib =
     \<lparr>generate_password_hash = (\<lambda>p. ''hash:'' @ p),
      check_password_hash = (\<lambda>h p. h = ''hash:'' @ p),
      str_upper = ascii_upper,
      str_lower = ascii_lower,
      py_int = digits_int,
      secure_filename = (\<lambda>n. n),
      round_percent = (\<lambda>c t. int (c * 100 div t))\<rparr>"

definition empty_db :: database where
  "empty_db =
     \<lparr>users = [], trainers = [], batches = [], enrollments = [], recordings = [],
      progress = [], otp_tokens = [], disk = []\<rparr>"

definition anonymous :: session where
  "anonymous = \<lparr>user_id = None, reset_email = None, flashes = []\<rparr>"

definition mk_user :: "int \<Rightarrow> string \<Rightarrow> string \<Rightarrow> string \<Rightarrow> user" where
  "mk_user i email password role =
     \<lparr>u_id = i, u_name = ''n'', u_email = email, u_password_hash = ''hash:'' @ password,
      u_role = role, u_created_at = 0, u_profile_pic = None, u_phone = None,
      u_address = None, u_about = None\<rparr>"

definition mk_trainer :: "int \<Rightarrow> string \<Rightarrow> trainer" where
  "mk_trainer i email =
     \<lparr>t_id = i, t_name = ''n'', t_email = email, t_expertise = None, t_profile_pic = None,
      t_phone = None, t_address = None, t_about = None\<rparr>"

definition mk_batch :: "int \<Rightarrow> string \<Rightarrow> int option \<Rightarrow> batch" where
  "mk_batch i name tid =
     \<lparr>b_id = i, b_name = name, b_description = None, b_created_at = 0, b_trainer_id = tid\<rparr>"

definition mk_recording :: "int \<Rightarrow> string \<Rightarrow> int \<Rightarrow> recording" where
  "mk_recording i name bid =
     \<lparr>r_id = i, r_filename = name, r_original_name = name, r_upload_time = 0,
      r_batch_id = Some bid, r_notes = None\<rparr>"

definition logged_in :: "int \<Rightarrow> session" where
  "logged_in uid = \<lparr>user_id = Some uid, reset_email = None, flashes = []\<rparr>"

text \<open>
  Trainer 1 is assigned to batch 7; the account has moved to \<open>new@x\<close>, the profile
  still says \<open>old@x\<close>.
\<close>

definition trainer_db :: database where
  "trainer_db =
     empty_db\<lparr>users := [mk_user 1 ''new@x'' ''secret'' ''trainer'',
                        mk_user 2 ''t2@x'' ''secret'' ''trainer'',
                        mk_user 3 ''s@x'' ''secret'' ''student''],
              trainers := [mk_trainer 1 ''old@x'', mk_trainer 2 ''t2@x''],
              batches := [mk_batch 7 ''B'' (Some 1)],
              recordings := [mk_recording 4 ''a.mp4'' 7],
              disk := [((7, ''a.mp4''), ''DATA'')]\<rparr>"

definition reset_db :: database where
  "reset_db = empty_db\<lparr>users := [mk_user 1 ''a@x'' ''oldpass'' ''student'']\<rparr>"

text \<open>
  The account \<open>a@x\<close> asks for a recovery code once (at time 0), and twice (at times 0
  and 60); the arguments are what \<open>secrets.token_hex(3)\<close> returned.
\<close>

definition issued_once :: "string \<Rightarrow> response \<times> database \<times> session" where
  "issued_once hex = forgot_password sample_lib 0 hex True reset_db anonymous POST ''a@x''"

definition issued_twice :: "string \<Rightarrow> string \<Rightarrow> response \<times> database \<times> session" where
  "issued_twice hex1 hex2 =
     forgot_password sample_lib 60 hex2 True
       (fst (snd (issued_once hex1))) (snd (snd (issued_once hex1))) POST ''a@x''"

text \<open>Student 3 has marked recording 999 (at time 50) and recording 4 (at time 60).\<close>

definition two_marks_db :: database where
  "two_marks_db =
     trainer_db\<lparr>progress :=
       [\<lparr>sp_id = 1, sp_user_id = Some 3, sp_recording_id = Some 999, sp_completed = True,
         sp_completed_at = Some 50\<rparr>,
        \<lparr>sp_id = 2, sp_user_id = Some 3, sp_recording_id = Some 4, sp_completed = True,
         sp_completed_at = Some 60\<rparr>]\<rparr>"

definition admin_db :: database where
  "admin_db = empty_db\<lparr>users := [mk_user 1 ''a@x'' ''oldpass'' ''admin'']\<rparr>"

text \<open>
  Student 3 is enrolled in batch 7, which has three recordings; student 5 is enrolled
  in batch 8, which has none.
\<close>

definition course_db :: database where
  "course_db =
     empty_db\<lparr>users := [mk_user 3 ''s@x'' ''secret'' ''student'',
                        mk_user 5 ''e@x'' ''secret'' ''student''],
              batches := [mk_batch 7 ''B'' None, mk_batch 8 ''Empty'' None],
              enrollments := [\<lparr>e_id = 1, e_user_id = Some 3, e_batch_id = Some 7, e_enrolled_at = 0\<rparr>,
                              \<lparr>e_id = 2, e_user_id = Some 5, e_batch_id = Some 8, e_enrolled_at = 0\<rparr>],
              recordings := [mk_recording 1 ''r1'' 7, mk_recording 2 ''r2'' 7,
                             mk_recording 3 ''r3'' 7]\<rparr>"

text \<open>Student 3 marks recording 1, then recording 2, then recording 3.\<close>

definition marked1 :: database where
  "marked1 = fst (snd (update_progress 10 course_db (logged_in 3) (JInt 1)))"

definition marked2 :: database where
  "marked2 = fst (snd (update_progress 20 marked1 (logged_in 3) (JInt 2)))"

definition marked3 :: database where
  "marked3 = fst (snd (update_progress 30 marked2 (logged_in 3) (JInt 3)))"

section \<open>Lemmas on lists and queries\<close>

lemma find_map_same:
  "(\<And>x. P (f x) = P x) \<Longrightarrow> find P (map f xs) = map_option f (find P xs)"
  by (induction xs) auto

lemma find_append_case:
  "find P (xs @ ys) = (case find P xs of None \<Rightarrow> find P ys | Some x \<Rightarrow> Some x)"
  by (induction xs) auto

lemma find_None_filter: "(find P xs = None) = (filter P xs = [])"
  by (induction xs) auto

lemma find_Some_filter: "(\<exists>y. find P xs = Some y) = (filter P xs \<noteq> [])"
  by (induction xs) auto

lemma filter_upd_same_length:
  assumes "\<And>x. P (g x) = P x"
  shows "length (filter (P \<circ> (\<lambda>x. if c x then g x else x)) xs) = length (filter P xs)"
proof -
  have "filter (P \<circ> (\<lambda>x. if c x then g x else x)) xs = filter P xs"
    by (rule filter_cong) (auto simp: assms)
  then show ?thesis by simp
qed

lemma length_one: "length xs \<le> 1 \<Longrightarrow> xs \<noteq> [] \<Longrightarrow> length xs = 1"
  by (cases xs) auto

section \<open>Authorization of the assigned trainer\<close>

text \<open>
  C1. A logged-in trainer may upload to a batch, or delete a recording of it, exactly
  when the batch has an assigned trainer profile whose e-mail address equals the
  account's address. For every trainer whose address differs from the assigned
  profile's (or whose batch has no assigned profile) both handlers answer
  \<open>abort(403)\<close> and leave the database as it was: a refusal, never an exception.
\<close>

theorem trainer_authorization_by_address_match:
  assumes "current_user db s = Some u" and "u_role u = ''trainer''"
  shows "(\<forall>b. get_batch db bid = Some b \<longrightarrow>
            ((fst (upload L now db s bid file notes) \<noteq> Abort 403) =
               (\<exists>t. batch_trainer db b = Some t \<and> t_email t = u_email u)) \<and>
            ((\<forall>t. batch_trainer db b = Some t \<longrightarrow> t_email t \<noteq> u_email u) \<longrightarrow>
               upload L now db s bid file notes =
                 (Abort 403, db,
                  flash s ''Only the assigned trainer can upload recordings to this batch.''
                    ''danger''))) \<and>
         (\<forall>r b. get_recording db rid = Some r \<and> recording_batch db r = Some b \<longrightarrow>
            ((fst (delete_recording db s rid) \<noteq> Abort 403) =
               (\<exists>t. batch_trainer db b = Some t \<and> t_email t = u_email u)) \<and>
            ((\<forall>t. batch_trainer db b = Some t \<longrightarrow> t_email t \<noteq> u_email u) \<longrightarrow>
               delete_recording db s rid =
                 (Abort 403, db, flash s ''Only the assigned trainer can delete content.'' ''danger'')))"
  using assms
  by (auto simp: upload_def delete_recording_def is_assigned_trainer_def is_trainer_def
        upload_invalid_def Let_def split: option.splits)

lemmas sample_defs = trainer_db_def empty_db_def mk_user_def mk_trainer_def mk_batch_def
  mk_recording_def logged_in_def anonymous_def

text \<open>
  An instance: the account of trainer 1 moved to \<open>new@x\<close> while the profile assigned to
  batch 7 still says \<open>old@x\<close>; both handlers refuse.
\<close>

theorem trainer_authorization_witness:
  "current_user trainer_db (logged_in 1) = Some (mk_user 1 ''new@x'' ''secret'' ''trainer'') \<and>
   u_role (mk_user 1 ''new@x'' ''secret'' ''trainer'') = ''trainer'' \<and>
   get_batch trainer_db 7 = Some (mk_batch 7 ''B'' (Some 1)) \<and>
   get_recording trainer_db 4 = Some (mk_recording 4 ''a.mp4'' 7) \<and>
   recording_batch trainer_db (mk_recording 4 ''a.mp4'' 7) = Some (mk_batch 7 ''B'' (Some 1)) \<and>
   batch_trainer trainer_db (mk_batch 7 ''B'' (Some 1)) = Some (mk_trainer 1 ''old@x'') \<and>
   upload sample_lib 0 trainer_db (logged_in 1) 7 (Some \<lparr>f_filename = ''b.mp4'', f_content = ''X''\<rparr>) None =
     (Abort 403, trainer_db,
      flash (logged_in 1) ''Only the assigned trainer can upload recordings to this batch.'' ''danger'') \<and>
   delete_recording trainer_db (logged_in 1) 4 =
     (Abort 403, trainer_db, flash (logged_in 1) ''Only the assigned trainer can delete content.'' ''danger'')"
proof -
  have a: "current_user trainer_db (logged_in 1) = Some (mk_user 1 ''new@x'' ''secret'' ''trainer'')"
    by (simp add: current_user_def get_user_def sample_defs)
  have r: "u_role (mk_user 1 ''new@x'' ''secret'' ''trainer'') = ''trainer''"
    by (simp add: mk_user_def)
  have b: "get_batch trainer_db 7 = Some (mk_batch 7 ''B'' (Some 1))"
    by (simp add: get_batch_def sample_defs)
  have c: "get_recording trainer_db 4 = Some (mk_recording 4 ''a.mp4'' 7)"
    by (simp add: get_recording_def sample_defs)
  have d: "recording_batch trainer_db (mk_recording 4 ''a.mp4'' 7) = Some (mk_batch 7 ''B'' (Some 1))"
    by (simp add: recording_batch_def get_batch_def sample_defs)
  have e: "batch_trainer trainer_db (mk_batch 7 ''B'' (Some 1)) = Some (mk_trainer 1 ''old@x'')"
    by (simp add: batch_trainer_def get_trainer_def sample_defs)
  have ne: "\<forall>t. batch_trainer trainer_db (mk_batch 7 ''B'' (Some 1)) = Some t \<longrightarrow>
              t_email t \<noteq> u_email (mk_user 1 ''new@x'' ''secret'' ''trainer'')"
    by (simp add: e mk_user_def mk_trainer_def)
  show ?thesis
    using trainer_authorization_by_address_match [OF a r, of 7 sample_lib 0
        "Some \<lparr>f_filename = ''b.mp4'', f_content = ''X''\<rparr>" None 4] ne a r b c d e
    by blast
qed

section \<open>Download\<close>

text \<open>
  C8. \<open>download\<close> checks neither authentication nor authorization: whenever the stored
  file exists, every session (anonymous, a student who is not enrolled, a trainer who
  is or is not assigned) gets the same answer, the file's content, and neither the
  database nor the session changes.
\<close>

theorem download_ignores_session:
  assumes "map_of (disk db) (bid, filename) = Some content"
  shows "fst (download db s1 bid filename) = SendFile content \<and>
         fst (download db s2 bid filename) = fst (download db s1 bid filename) \<and>
         fst (snd (download db s1 bid filename)) = db \<and>
         snd (snd (download db s1 bid filename)) = s1"
  using assms by (simp add: download_def)

text \<open>
  An instance: the file of batch 7 goes to an anonymous client, to student 3 (enrolled
  nowhere), to trainer 2 (not assigned) and to trainer 1 alike.
\<close>

theorem download_ignores_session_witness:
  "map_of (disk trainer_db) (7, ''a.mp4'') = Some ''DATA'' \<and>
   fst (download trainer_db anonymous 7 ''a.mp4'') = SendFile ''DATA'' \<and>
   fst (download trainer_db (logged_in 3) 7 ''a.mp4'') = SendFile ''DATA'' \<and>
   fst (download trainer_db (logged_in 2) 7 ''a.mp4'') = SendFile ''DATA'' \<and>
   fst (download trainer_db (logged_in 1) 7 ''a.mp4'') = SendFile ''DATA''"
proof -
  have f: "map_of (disk trainer_db) (7, ''a.mp4'') = Some ''DATA''"
    by (simp add: sample_defs)
  show ?thesis
    using f download_ignores_session [OF f, of anonymous "logged_in 3"]
      download_ignores_session [OF f, of "logged_in 2" "logged_in 1"]
      download_ignores_session [OF f, of "logged_in 1" "logged_in 2"]
    by simp
qed

section \<open>Recovery codes\<close>

lemma otp_tokens_generate:
  "otp_tokens (fst (snd (generate_and_send_otp L now hex mail_ok db s uid email))) =
     filter (\<lambda>k. o_user_id k \<noteq> uid) (otp_tokens db) @
       [\<lparr>o_id = next_id (map o_id (filter (\<lambda>k. o_user_id k \<noteq> uid) (otp_tokens db))),
         o_user_id = uid, o_token = str_upper L hex, o_expires_at = now + 600\<rparr>]"
  by (simp add: generate_and_send_otp_def Let_def)

lemma forgot_post_found:
  assumes "find (\<lambda>u. u_email u = email) (users db) = Some user"
    and "forgot_password L now hex mail_ok db s POST email = (r, db', s')"
  shows "users db' = users db"
    and "otp_tokens db' = filter (\<lambda>k. o_user_id k \<noteq> u_id user) (otp_tokens db) @
       [\<lparr>o_id = next_id (map o_id (filter (\<lambda>k. o_user_id k \<noteq> u_id user) (otp_tokens db))),
         o_user_id = u_id user, o_token = str_upper L hex, o_expires_at = now + 600\<rparr>]"
    and "reset_email s' = Some email"
    and "r = Redirect ''reset_password'' None"
  using assms
  by (auto simp: forgot_password_def generate_and_send_otp_def Let_def split: prod.splits if_splits)

lemma otp_unique_generate:
  assumes "otp_unique db"
  shows "otp_unique (fst (snd (generate_and_send_otp L now hex mail_ok db s uid email)))"
proof -
  have "distinct (map o_user_id (filter (\<lambda>k. o_user_id k \<noteq> uid) (otp_tokens db)))"
    using assms by (simp add: otp_unique_def distinct_map_filter)
  then show ?thesis
    by (auto simp: otp_unique_def otp_tokens_generate)
qed

lemma otp_unique_forgot:
  assumes inv: "otp_unique db"
  shows "otp_unique (fst (snd (forgot_password L now hex mail_ok db s m email)))"
proof (cases "m = POST")
  case False
  with inv show ?thesis by (simp add: forgot_password_def)
next
  case True
  show ?thesis
  proof (cases "find (\<lambda>u. u_email u = email) (users db)")
    case None
    with inv show ?thesis by (simp add: forgot_password_def)
  next
    case (Some user)
    obtain t db' s' where
      g: "generate_and_send_otp L now hex mail_ok db s (u_id user) (u_email user) = (t, db', s')"
      by (cases "generate_and_send_otp L now hex mail_ok db s (u_id user) (u_email user)") auto
    have "otp_unique db'"
      using otp_unique_generate [OF inv, of L now hex mail_ok s "u_id user" "u_email user"] g
      by simp
    with True Some g show ?thesis by (simp add: forgot_password_def)
  qed
qed

lemma otp_unique_reset:
  "otp_unique db \<Longrightarrow> otp_unique (fst (snd (reset_password L now db s m token pw)))"
  by (auto simp: reset_password_def reset_invalid_def reset_weak_def reset_not_started_def
        otp_unique_def distinct_map_filter split: option.splits)

lemma otp_tokens_other:
  "otp_tokens (fst (snd (register L now db s m name email pw role))) = otp_tokens db"
  "otp_tokens (fst (snd (enroll_student L now db s us bs))) = otp_tokens db"
  "otp_tokens (fst (snd (upload L now db s bid file notes))) = otp_tokens db"
  "otp_tokens (fst (snd (download db s bid filename))) = otp_tokens db"
  "otp_tokens (fst (snd (delete_recording db s rid))) = otp_tokens db"
  "otp_tokens (fst (snd (update_security L db s cur np ne))) = otp_tokens db"
  "otp_tokens (fst (snd (update_progress now db s orid))) = otp_tokens db"
  by (auto simp: register_def enroll_student_def upload_def upload_invalid_def download_def
        delete_recording_def update_security_def update_progress_def Let_def
        split: option.splits sum.splits prod.splits)

lemma otp_unique_handle:
  assumes inv: "otp_unique db"
  shows "otp_unique (fst (snd (handle L E db s req)))"
proof (cases req)
  case (ForgotPassword m email)
  then show ?thesis using otp_unique_forgot [OF inv] by simp
next
  case (ResetPassword m token pw)
  then show ?thesis using otp_unique_reset [OF inv] by simp
qed (use inv in \<open>simp_all add: otp_tokens_other otp_unique_def\<close>)

lemma otp_unique_run:
  "otp_unique db \<Longrightarrow> otp_unique (run L db reqs)"
proof (induction reqs arbitrary: db)
  case Nil
  then show ?case by simp
next
  case (Cons x reqs)
  obtain E s req where x: "x = (E, s, req)" by (cases x) auto
  from Cons.prems have "otp_unique (fst (snd (handle L E db s req)))"
    by (rule otp_unique_handle)
  then show ?case unfolding x by (simp add: Cons.IH)
qed

lemma reset_no_match:
  assumes "reset_email s = Some email" and "email \<noteq> []"
    and "find (\<lambda>u. u_email u = email) (users db) = Some user"
    and "find (\<lambda>k. o_user_id k = u_id user \<and> o_token k = str_upper L token) (otp_tokens db) = None"
  shows "reset_password L now db s POST token pw = reset_invalid db s"
  using assms by (simp add: reset_password_def)

lemma reset_expired:
  assumes "reset_email s = Some email" and "email \<noteq> []"
    and "find (\<lambda>u. u_email u = email) (users db) = Some user"
    and "find (\<lambda>k. o_user_id k = u_id user \<and> o_token k = str_upper L token) (otp_tokens db) = Some e"
    and "o_expires_at e < now"
  shows "reset_password L now db s POST token pw = reset_invalid db s"
  using assms by (simp add: reset_password_def)

lemma reset_weak_pw:
  assumes "reset_email s = Some email" and "email \<noteq> []"
    and "find (\<lambda>u. u_email u = email) (users db) = Some user"
    and "find (\<lambda>k. o_user_id k = u_id user \<and> o_token k = str_upper L token) (otp_tokens db) = Some e"
    and "now \<le> o_expires_at e" and "length pw < 6"
  shows "reset_password L now db s POST token pw = reset_weak db s"
  using assms by (simp add: reset_password_def)

lemma reset_success:
  assumes "reset_email s = Some email" and "email \<noteq> []"
    and "find (\<lambda>u. u_email u = email) (users db) = Some user"
    and "find (\<lambda>k. o_user_id k = u_id user \<and> o_token k = str_upper L token) (otp_tokens db) = Some e"
    and "now \<le> o_expires_at e" and "6 \<le> length pw"
  shows "reset_password L now db s POST token pw =
           (Redirect ''login'' None,
            db\<lparr>users := map (\<lambda>u. if u_id u = u_id user
                                  then u\<lparr>u_password_hash := generate_password_hash L pw\<rparr>
                                  else u) (users db),
               otp_tokens := filter (\<lambda>k. o_id k \<noteq> o_id e) (otp_tokens db)\<rparr>,
            flash (s\<lparr>reset_email := None\<rparr>)
              ''Password successfully reset. You can now log in.'' ''success'')"
  using assms by (simp add: reset_password_def)

lemma unique_user_rows:
  assumes "distinct (map o_user_id ks)" and "e \<in> set ks" and "k \<in> set ks"
    and "o_user_id k = o_user_id e"
  shows "k = e"
  using assms by (meson distinct_map inj_onD)

lemma find_None_after_delete:
  assumes "otp_unique db"
    and "find (\<lambda>k. o_user_id k = uid \<and> o_token k = tok) (otp_tokens db) = Some e"
  shows "find (\<lambda>k. o_user_id k = uid \<and> P k) (filter (\<lambda>k. o_id k \<noteq> o_id e) (otp_tokens db)) = None"
proof -
  from assms(2) have e: "e \<in> set (otp_tokens db)" "o_user_id e = uid"
    by (auto simp: find_Some_iff)
  have "\<And>k. k \<in> set (otp_tokens db) \<Longrightarrow> o_user_id k = uid \<Longrightarrow> k = e"
    using unique_user_rows [of "otp_tokens db" e] assms(1) e by (simp add: otp_unique_def)
  then show ?thesis by (auto simp: find_None_iff)
qed

lemma reset_single_use:
  assumes s: "reset_email s = Some email" "email \<noteq> []"
    and u: "find (\<lambda>u. u_email u = email) (users db) = Some user"
    and f: "find (\<lambda>k. o_user_id k = u_id user \<and> o_token k = str_upper L token) (otp_tokens db) = Some e"
    and ok: "now \<le> o_expires_at e" "6 \<le> length pw"
    and inv: "otp_unique db"
    and r: "reset_password L now db s POST token pw = (r, db', s')"
  shows "reset_password L now' db' s POST token' pw' = reset_invalid db' s"
proof -
  let ?f = "\<lambda>u. if u_id u = u_id user then u\<lparr>u_password_hash := generate_password_hash L pw\<rparr> else u"
  from reset_success [OF s u f ok] r
  have db': "users db' = map ?f (users db)"
    "otp_tokens db' = filter (\<lambda>k. o_id k \<noteq> o_id e) (otp_tokens db)"
    by auto
  have "find (\<lambda>u. u_email u = email) (users db') = map_option ?f (find (\<lambda>u. u_email u = email) (users db))"
    unfolding db' by (rule find_map_same) simp
  with u have u': "find (\<lambda>u. u_email u = email) (users db') = Some (?f user)" by simp
  have id: "u_id (?f user) = u_id user" by simp
  have "find (\<lambda>k. o_user_id k = u_id user \<and> o_token k = str_upper L token') (otp_tokens db') = None"
    unfolding db' by (rule find_None_after_delete [OF inv f])
  then have "find (\<lambda>k. o_user_id k = u_id (?f user) \<and> o_token k = str_upper L token') (otp_tokens db') = None"
    by simp
  from reset_no_match [OF s u' this] show ?thesis .
qed

lemma issued_rows:
  assumes u: "find (\<lambda>u. u_email u = email) (users db) = Some user"
    and f: "forgot_password L now hex mail db s POST email = (r, db', s')"
  shows "filter (\<lambda>k. o_user_id k = u_id user) (otp_tokens db') =
           [\<lparr>o_id = next_id (map o_id (filter (\<lambda>k. o_user_id k \<noteq> u_id user) (otp_tokens db))),
             o_user_id = u_id user, o_token = str_upper L hex, o_expires_at = now + 600\<rparr>]"
  unfolding forgot_post_found(2) [OF u f] by (simp add: filter_empty_conv)

lemma issued_find:
  assumes u: "find (\<lambda>u. u_email u = email) (users db) = Some user"
    and f: "forgot_password L now hex mail db s POST email = (r, db', s')"
  shows "find (\<lambda>k. o_user_id k = u_id user \<and> o_token k = tok) (otp_tokens db') =
           (if tok = str_upper L hex
            then Some \<lparr>o_id = next_id (map o_id (filter (\<lambda>k. o_user_id k \<noteq> u_id user) (otp_tokens db))),
                       o_user_id = u_id user, o_token = str_upper L hex, o_expires_at = now + 600\<rparr>
            else None)"
proof -
  have "find (\<lambda>k. o_user_id k = u_id user \<and> o_token k = tok)
          (filter (\<lambda>k. o_user_id k \<noteq> u_id user) (otp_tokens db)) = None"
    by (auto simp: find_None_iff)
  then show ?thesis
    unfolding forgot_post_found(2) [OF u f] by (auto simp: find_append_case)
qed


text \<open>
  C2, as amended. At most one recovery code per account is preserved by every request
  (and so by every run); the handlers of lms.py that \<open>handle\<close> leaves out never
  touch the table of codes. \<open>forgot_password\<close> deletes the account's codes before it
  stores the new one: after a second request the account has exactly one code, the
  second, expiring 600 seconds after the second request. From then on every code whose
  upper-cased form differs from the second code is refused as invalid or expired, at
  any time and so also before the first code would have expired; this covers the first
  code whenever the two random codes differ.
\<close>

theorem last_recovery_code_wins:
  assumes u: "find (\<lambda>u. u_email u = email) (users db) = Some user"
    and e: "email \<noteq> []"
    and f1: "forgot_password L now1 hex1 mail1 db sa POST email = (r1, db1, s1)"
    and f2: "forgot_password L now2 hex2 mail2 db1 sb POST email = (r2, db2, s2)"
  shows "map (\<lambda>k. (o_token k, o_expires_at k))
             (filter (\<lambda>k. o_user_id k = u_id user) (otp_tokens db2)) =
           [(str_upper L hex2, now2 + 600)] \<and>
         (str_upper L token \<noteq> str_upper L hex2 \<longrightarrow>
            reset_password L now3 db2 s2 POST token pw =
              (Redirect ''reset_password'' None, db2,
               flash s2 ''Invalid or expired recovery code.'' ''danger'')) \<and>
         (otp_unique db0 \<longrightarrow> otp_unique (fst (snd (handle L E db0 s0 req)))) \<and>
         (otp_unique db0 \<longrightarrow> otp_unique (run L db0 reqs))"
proof -
  have u1: "find (\<lambda>u. u_email u = email) (users db1) = Some user"
    using forgot_post_found(1) [OF u f1] u by simp
  have u2: "find (\<lambda>u. u_email u = email) (users db2) = Some user"
    using forgot_post_found(1) [OF u1 f2] u1 by simp
  have s2: "reset_email s2 = Some email"
    by (rule forgot_post_found(3) [OF u1 f2])
  have a: "map (\<lambda>k. (o_token k, o_expires_at k))
             (filter (\<lambda>k. o_user_id k = u_id user) (otp_tokens db2)) =
           [(str_upper L hex2, now2 + 600)]"
    unfolding issued_rows [OF u1 f2] by simp
  have b: "reset_password L now3 db2 s2 POST token pw =
              (Redirect ''reset_password'' None, db2,
               flash s2 ''Invalid or expired recovery code.'' ''danger'')"
    if "str_upper L token \<noteq> str_upper L hex2"
  proof -
    have "find (\<lambda>k. o_user_id k = u_id user \<and> o_token k = str_upper L token) (otp_tokens db2) = None"
      unfolding issued_find [OF u1 f2] using that by simp
    from reset_no_match [OF s2 e u2 this] show ?thesis by (simp add: reset_invalid_def)
  qed
  show ?thesis
    using a b otp_unique_handle otp_unique_run by blast
qed


lemmas otp_eval = issued_once_def issued_twice_def reset_db_def forgot_password_def
  generate_and_send_otp_def reset_password_def sample_lib_def ascii_upper_def
  flash_def next_id_def Let_def sample_defs

text \<open>
  An instance: the codes ABC123 (time 0) and DEF456 (time 60); at time 120 the first
  code is refused, and one code is stored for the account.
\<close>

theorem last_recovery_code_wins_witness:
  "find (\<lambda>u. u_email u = ''a@x'') (users reset_db) = Some (mk_user 1 ''a@x'' ''oldpass'' ''student'') \<and>
   str_upper sample_lib ''ABC123'' \<noteq> str_upper sample_lib ''def456'' \<and>
   map (\<lambda>k. (o_token k, o_expires_at k))
       (filter (\<lambda>k. o_user_id k = 1) (otp_tokens (fst (snd (issued_twice ''abc123'' ''def456''))))) =
     [(''DEF456'', 660)] \<and>
   reset_password sample_lib 120 (fst (snd (issued_twice ''abc123'' ''def456'')))
       (snd (snd (issued_twice ''abc123'' ''def456''))) POST ''ABC123'' ''newpass1'' =
     (Redirect ''reset_password'' None, fst (snd (issued_twice ''abc123'' ''def456'')),
      flash (snd (snd (issued_twice ''abc123'' ''def456'')))
        ''Invalid or expired recovery code.'' ''danger'') \<and>
   otp_unique reset_db \<and>
   otp_unique (fst (snd (issued_twice ''abc123'' ''def456'')))"
proof -
  have u: "find (\<lambda>u. u_email u = ''a@x'') (users reset_db) = Some (mk_user 1 ''a@x'' ''oldpass'' ''student'')"
    by (simp add: reset_db_def sample_defs)
  have e: "''a@x'' \<noteq> []" by simp
  have f1: "forgot_password sample_lib 0 ''abc123'' True reset_db anonymous POST ''a@x'' =
              (fst (issued_once ''abc123''), fst (snd (issued_once ''abc123'')),
               snd (snd (issued_once ''abc123'')))"
    by (simp add: issued_once_def)
  have f2: "forgot_password sample_lib 60 ''def456'' True (fst (snd (issued_once ''abc123'')))
              (snd (snd (issued_once ''abc123''))) POST ''a@x'' =
              (fst (issued_twice ''abc123'' ''def456''), fst (snd (issued_twice ''abc123'' ''def456'')),
               snd (snd (issued_twice ''abc123'' ''def456'')))"
    by (simp add: issued_twice_def)
  have ne: "str_upper sample_lib ''ABC123'' \<noteq> str_upper sample_lib ''def456''"
    by (simp add: sample_lib_def ascii_upper_def)
  have up: "str_upper sample_lib ''def456'' = ''DEF456''"
    by (simp add: sample_lib_def ascii_upper_def)
  have id: "u_id (mk_user 1 ''a@x'' ''oldpass'' ''student'') = 1"
    by (simp add: mk_user_def)
  have inv: "otp_unique reset_db"
    by (simp add: otp_unique_def reset_db_def sample_defs)
  have h: "handle sample_lib \<lparr>env_now = 60, env_hex = ''def456'', env_mail_ok = True\<rparr>
             (fst (snd (issued_once ''abc123''))) (snd (snd (issued_once ''abc123'')))
             (ForgotPassword POST ''a@x'') = issued_twice ''abc123'' ''def456''"
    by (simp add: issued_twice_def)
  have h1: "handle sample_lib \<lparr>env_now = 0, env_hex = ''abc123'', env_mail_ok = True\<rparr>
             reset_db anonymous (ForgotPassword POST ''a@x'') = issued_once ''abc123''"
    by (simp add: issued_once_def)
  note t = last_recovery_code_wins [OF u e f1 f2]
  have inv1: "otp_unique (fst (snd (issued_once ''abc123'')))"
    using t [of _ _ _ reset_db "\<lparr>env_now = 0, env_hex = ''abc123'', env_mail_ok = True\<rparr>"
        anonymous "ForgotPassword POST ''a@x''"] inv h1 by simp
  have inv2: "otp_unique (fst (snd (issued_twice ''abc123'' ''def456'')))"
    using t [of _ _ _ "fst (snd (issued_once ''abc123''))"
        "\<lparr>env_now = 60, env_hex = ''def456'', env_mail_ok = True\<rparr>"
        "snd (snd (issued_once ''abc123''))" "ForgotPassword POST ''a@x''"] inv1 h by simp
  show ?thesis
    using t [of "''ABC123''" 120 "''newpass1''"] u ne up id inv inv2 by simp
qed

text \<open>
  C2 as stated fails when \<open>secrets.token_hex\<close> returns the same value twice: the account
  \<open>a@x\<close> gets the code ABC123 at time 0 and again at time 60; at time 120 (before the
  first code's expiry at 600) the first code, ABC123, is accepted and the password is
  replaced.
\<close>

theorem same_code_twice_counterexample:
  "fst (reset_password sample_lib 120 (fst (snd (issued_twice ''abc123'' ''abc123'')))
          (snd (snd (issued_twice ''abc123'' ''abc123''))) POST ''ABC123'' ''newpass1'') =
     Redirect ''login'' None \<and>
   map u_password_hash
     (users (fst (snd (reset_password sample_lib 120 (fst (snd (issued_twice ''abc123'' ''abc123'')))
          (snd (snd (issued_twice ''abc123'' ''abc123''))) POST ''ABC123'' ''newpass1'')))) =
     [''hash:newpass1'']"
  by (simp add: otp_eval)

text \<open>
  C3. With a recovery in progress for an existing account, \<open>reset_password\<close> answers
  ``invalid or expired'' when no stored code of the account matches the upper-cased
  input, or when the stored code's expiry lies before now (the expiry is the time of
  issue plus 600 seconds); otherwise ``weak password'' when the new password is shorter
  than 6; in all these cases the database is returned as it was. Otherwise it stores the
  new credential and deletes the code; with one code per account, no later attempt on
  the resulting database succeeds, whatever code, password and time it comes with.
\<close>

theorem reset_password_single_use:
  assumes s: "reset_email s = Some email" and e: "email \<noteq> []"
    and u: "find (\<lambda>u. u_email u = email) (users db) = Some user"
  shows "(find (\<lambda>k. o_user_id k = u_id user \<and> o_token k = str_upper L token) (otp_tokens db) = None \<longrightarrow>
            reset_password L now db s POST token pw =
              (Redirect ''reset_password'' None, db,
               flash s ''Invalid or expired recovery code.'' ''danger'')) \<and>
         (\<forall>c. find (\<lambda>k. o_user_id k = u_id user \<and> o_token k = str_upper L token) (otp_tokens db) = Some c \<longrightarrow>
            (o_expires_at c < now \<longrightarrow>
               reset_password L now db s POST token pw =
                 (Redirect ''reset_password'' None, db,
                  flash s ''Invalid or expired recovery code.'' ''danger'')) \<and>
            (now \<le> o_expires_at c \<and> length pw < 6 \<longrightarrow>
               reset_password L now db s POST token pw =
                 (Redirect ''reset_password'' None, db,
                  flash s ''New password must be at least 6 characters long.'' ''danger'')) \<and>
            (now \<le> o_expires_at c \<and> 6 \<le> length pw \<longrightarrow>
               reset_password L now db s POST token pw =
                 (Redirect ''login'' None,
                  db\<lparr>users := map (\<lambda>x. if u_id x = u_id user
                                        then x\<lparr>u_password_hash := generate_password_hash L pw\<rparr>
                                        else x) (users db),
                     otp_tokens := filter (\<lambda>k. o_id k \<noteq> o_id c) (otp_tokens db)\<rparr>,
                  flash (s\<lparr>reset_email := None\<rparr>)
                    ''Password successfully reset. You can now log in.'' ''success'') \<and>
               (otp_unique db \<longrightarrow>
                  reset_password L now' (fst (snd (reset_password L now db s POST token pw))) s POST token' pw' =
                    (Redirect ''reset_password'' None, fst (snd (reset_password L now db s POST token pw)),
                     flash s ''Invalid or expired recovery code.'' ''danger'')))) \<and>
         (\<forall>db0 s0 r0 now0 hex mail.
            forgot_password L now0 hex mail db0 s0 POST email = (r0, db, s) \<and>
            str_upper L token = str_upper L hex \<longrightarrow>
              (now0 + 600 < now \<longrightarrow>
                 reset_password L now db s POST token pw =
                   (Redirect ''reset_password'' None, db,
                    flash s ''Invalid or expired recovery code.'' ''danger'')) \<and>
              (now \<le> now0 + 600 \<and> 6 \<le> length pw \<longrightarrow>
                 fst (reset_password L now db s POST token pw) = Redirect ''login'' None))"
proof -
  let ?Q = "\<lambda>k. o_user_id k = u_id user \<and> o_token k = str_upper L token"
  have p1: "find ?Q (otp_tokens db) = None \<Longrightarrow> reset_password L now db s POST token pw =
              (Redirect ''reset_password'' None, db,
               flash s ''Invalid or expired recovery code.'' ''danger'')"
    using reset_no_match [OF s e u] by (simp add: reset_invalid_def)
  have p2: "reset_password L now db s POST token pw =
              (Redirect ''reset_password'' None, db,
               flash s ''Invalid or expired recovery code.'' ''danger'')"
    if "find ?Q (otp_tokens db) = Some c" "o_expires_at c < now" for c
    using reset_expired [OF s e u that] by (simp add: reset_invalid_def)
  have p3: "reset_password L now db s POST token pw =
                 (Redirect ''reset_password'' None, db,
                  flash s ''New password must be at least 6 characters long.'' ''danger'')"
    if "find ?Q (otp_tokens db) = Some c" "now \<le> o_expires_at c" "length pw < 6" for c
    using reset_weak_pw [OF s e u that] by (simp add: reset_weak_def)
  have p4: "reset_password L now db s POST token pw =
                 (Redirect ''login'' None,
                  db\<lparr>users := map (\<lambda>x. if u_id x = u_id user
                                        then x\<lparr>u_password_hash := generate_password_hash L pw\<rparr>
                                        else x) (users db),
                     otp_tokens := filter (\<lambda>k. o_id k \<noteq> o_id c) (otp_tokens db)\<rparr>,
                  flash (s\<lparr>reset_email := None\<rparr>)
                    ''Password successfully reset. You can now log in.'' ''success'')"
    if "find ?Q (otp_tokens db) = Some c" "now \<le> o_expires_at c" "6 \<le> length pw" for c
    using reset_success [OF s e u that] .
  have p5: "reset_password L now' (fst (snd (reset_password L now db s POST token pw))) s POST token' pw' =
                    (Redirect ''reset_password'' None, fst (snd (reset_password L now db s POST token pw)),
                     flash s ''Invalid or expired recovery code.'' ''danger'')"
    if "find ?Q (otp_tokens db) = Some c" "now \<le> o_expires_at c" "6 \<le> length pw" "otp_unique db" for c
    using reset_single_use [OF s e u that(1,2,3,4), of "fst (reset_password L now db s POST token pw)"
        "fst (snd (reset_password L now db s POST token pw))" "snd (snd (reset_password L now db s POST token pw))"
        now' token' pw']
    by (simp add: reset_invalid_def)
  have p6: "(now0 + 600 < now \<longrightarrow>
                 reset_password L now db s POST token pw =
                   (Redirect ''reset_password'' None, db,
                    flash s ''Invalid or expired recovery code.'' ''danger'')) \<and>
              (now \<le> now0 + 600 \<and> 6 \<le> length pw \<longrightarrow>
                 fst (reset_password L now db s POST token pw) = Redirect ''login'' None)"
    if f: "forgot_password L now0 hex mail db0 s0 POST email = (r0, db, s)"
      and t: "str_upper L token = str_upper L hex" for db0 s0 r0 now0 hex mail
  proof -
    have "users db = users db0"
      using f by (auto simp: forgot_password_def generate_and_send_otp_def Let_def
          split: option.splits if_splits)
    with u have u0: "find (\<lambda>u. u_email u = email) (users db0) = Some user" by simp
    let ?c = "\<lparr>o_id = next_id (map o_id (filter (\<lambda>k. o_user_id k \<noteq> u_id user) (otp_tokens db0))),
               o_user_id = u_id user, o_token = str_upper L hex, o_expires_at = now0 + 600\<rparr>"
    have c: "find ?Q (otp_tokens db) = Some ?c"
      unfolding issued_find [OF u0 f] using t by simp
    show ?thesis
      using p2 [OF c] p4 [OF c] by simp
  qed
  show ?thesis
    using p1 p2 p3 p4 p5 p6 by blast
qed

text \<open>
  An instance: the code ABC123 issued at time 0. A wrong code, the right code at time
  601, and the right code with a short password are refused; the right code at time
  600 is accepted, and a second attempt with it is refused.
\<close>

theorem reset_password_single_use_witness:
  "reset_email (snd (snd (issued_once ''abc123''))) = Some ''a@x'' \<and>
   find (\<lambda>u. u_email u = ''a@x'') (users (fst (snd (issued_once ''abc123'')))) =
     Some (mk_user 1 ''a@x'' ''oldpass'' ''student'') \<and>
   find (\<lambda>k. o_user_id k = 1 \<and> o_token k = ''ABC123'') (otp_tokens (fst (snd (issued_once ''abc123'')))) =
     Some \<lparr>o_id = 1, o_user_id = 1, o_token = ''ABC123'', o_expires_at = 600\<rparr> \<and>
   otp_unique (fst (snd (issued_once ''abc123''))) \<and>
   reset_password sample_lib 100 (fst (snd (issued_once ''abc123''))) (snd (snd (issued_once ''abc123'')))
       POST ''zzz999'' ''newpass1'' =
     (Redirect ''reset_password'' None, fst (snd (issued_once ''abc123'')),
      flash (snd (snd (issued_once ''abc123''))) ''Invalid or expired recovery code.'' ''danger'') \<and>
   reset_password sample_lib 601 (fst (snd (issued_once ''abc123''))) (snd (snd (issued_once ''abc123'')))
       POST ''abc123'' ''newpass1'' =
     (Redirect ''reset_password'' None, fst (snd (issued_once ''abc123'')),
      flash (snd (snd (issued_once ''abc123''))) ''Invalid or expired recovery code.'' ''danger'') \<and>
   reset_password sample_lib 100 (fst (snd (issued_once ''abc123''))) (snd (snd (issued_once ''abc123'')))
       POST ''abc123'' ''short'' =
     (Redirect ''reset_password'' None, fst (snd (issued_once ''abc123'')),
      flash (snd (snd (issued_once ''abc123'')))
        ''New password must be at least 6 characters long.'' ''danger'') \<and>
   fst (reset_password sample_lib 600 (fst (snd (issued_once ''abc123''))) (snd (snd (issued_once ''abc123'')))
       POST ''abc123'' ''newpass1'') = Redirect ''login'' None \<and>
   reset_password sample_lib 601
       (fst (snd (reset_password sample_lib 600 (fst (snd (issued_once ''abc123'')))
                    (snd (snd (issued_once ''abc123''))) POST ''abc123'' ''newpass1'')))
       (snd (snd (issued_once ''abc123''))) POST ''abc123'' ''another1'' =
     (Redirect ''reset_password'' None,
      fst (snd (reset_password sample_lib 600 (fst (snd (issued_once ''abc123'')))
                    (snd (snd (issued_once ''abc123''))) POST ''abc123'' ''newpass1'')),
      flash (snd (snd (issued_once ''abc123''))) ''Invalid or expired recovery code.'' ''danger'')"
proof -
  let ?db = "fst (snd (issued_once ''abc123''))"
  let ?s = "snd (snd (issued_once ''abc123''))"
  let ?u = "mk_user 1 ''a@x'' ''oldpass'' ''student''"
  let ?c = "\<lparr>o_id = 1, o_user_id = 1, o_token = ''ABC123'', o_expires_at = 600\<rparr>"
  have once: "issued_once ''abc123'' =
      (Redirect ''reset_password'' None,
       reset_db\<lparr>otp_tokens := [?c]\<rparr>,
       \<lparr>user_id = None, reset_email = Some ''a@x'',
        flashes = [(''A recovery code has been sent to a@x. (Valid for 10 minutes).'', ''warning'')]\<rparr>)"
    by (simp add: issued_once_def reset_db_def forgot_password_def generate_and_send_otp_def
        sample_lib_def ascii_upper_def flash_def next_id_def Let_def sample_defs)
  have s: "reset_email ?s = Some ''a@x''" by (simp add: once)
  have e: "''a@x'' \<noteq> []" by simp
  have u: "find (\<lambda>u. u_email u = ''a@x'') (users ?db) = Some ?u"
    by (simp add: once reset_db_def sample_defs)
  have id: "u_id ?u = 1" by (simp add: mk_user_def)
  have up: "str_upper sample_lib ''abc123'' = ''ABC123''" "str_upper sample_lib ''zzz999'' = ''ZZZ999''"
    by (simp_all add: sample_lib_def ascii_upper_def)
  have c: "find (\<lambda>k. o_user_id k = 1 \<and> o_token k = ''ABC123'') (otp_tokens ?db) = Some ?c"
    by (simp add: once)
  have n: "find (\<lambda>k. o_user_id k = 1 \<and> o_token k = ''ZZZ999'') (otp_tokens ?db) = None"
    by (simp add: once)
  have inv: "otp_unique ?db" by (simp add: once otp_unique_def)
  note t = reset_password_single_use [OF s e u, where L = sample_lib]
  have a1: "reset_password sample_lib 100 ?db ?s POST ''zzz999'' ''newpass1'' =
     (Redirect ''reset_password'' None, ?db, flash ?s ''Invalid or expired recovery code.'' ''danger'')"
    using t [of "''zzz999''" 100 "''newpass1''"] n by (simp add: id up)
  have a2: "reset_password sample_lib 601 ?db ?s POST ''abc123'' ''newpass1'' =
     (Redirect ''reset_password'' None, ?db, flash ?s ''Invalid or expired recovery code.'' ''danger'')"
    using t [of "''abc123''" 601 "''newpass1''"] c by (simp add: id up)
  have a3: "reset_password sample_lib 100 ?db ?s POST ''abc123'' ''short'' =
     (Redirect ''reset_password'' None, ?db,
      flash ?s ''New password must be at least 6 characters long.'' ''danger'')"
    using t [of "''abc123''" 100 "''short''"] c by (simp add: id up)
  have c': "find (\<lambda>k. o_user_id k = u_id ?u \<and> o_token k = str_upper sample_lib ''abc123'')
              (otp_tokens ?db) = Some ?c"
    using c by (simp add: id up)
  have ok: "600 \<le> o_expires_at ?c \<and> 6 \<le> length ''newpass1''" by simp
  note t4 = t [of "''abc123''" 600 "''newpass1''" 601 "''abc123''" "''another1''",
      THEN conjunct2, THEN conjunct1, THEN spec, of ?c, THEN mp, OF c',
      THEN conjunct2, THEN conjunct2, THEN mp, OF ok]
  have a4: "fst (reset_password sample_lib 600 ?db ?s POST ''abc123'' ''newpass1'') = Redirect ''login'' None"
    using t4 [THEN conjunct1] by simp
  have a5: "reset_password sample_lib 601
       (fst (snd (reset_password sample_lib 600 ?db ?s POST ''abc123'' ''newpass1'')))
       ?s POST ''abc123'' ''another1'' =
     (Redirect ''reset_password'' None,
      fst (snd (reset_password sample_lib 600 ?db ?s POST ''abc123'' ''newpass1'')),
      flash ?s ''Invalid or expired recovery code.'' ''danger'')"
    by (rule t4 [THEN conjunct2, THEN mp, OF inv])
  show ?thesis using s u c inv a1 a2 a3 a4 a5 by blast
qed

section \<open>Registration of the admin\<close>

lemma users_other:
  "users (fst (snd (forgot_password L now hex mail db s m email))) = users db"
  "users (fst (snd (enroll_student L now db s us bs))) = users db"
  "users (fst (snd (upload L now db s bid file notes))) = users db"
  "users (fst (snd (download db s bid filename))) = users db"
  "users (fst (snd (delete_recording db s rid))) = users db"
  "users (fst (snd (update_progress now db s orid))) = users db"
  by (auto simp: forgot_password_def generate_and_send_otp_def enroll_student_def upload_def
        upload_invalid_def download_def delete_recording_def update_progress_def Let_def
        split: option.splits sum.splits prod.splits)

lemma admins_reset:
  "length (admins (fst (snd (reset_password L now db s m token pw)))) = length (admins db)"
  by (auto simp: reset_password_def reset_invalid_def reset_weak_def reset_not_started_def
        admins_def filter_upd_same_length split: option.splits)

lemma admins_security:
  "length (admins (fst (snd (update_security L db s cur np ne)))) = length (admins db)"
  by (auto simp: update_security_def admins_def filter_upd_same_length
        split: option.splits sum.splits prod.splits)

lemma admins_register:
  "length (admins (fst (snd (register L now db s m name email pw role)))) \<le>
     max 1 (length (admins db))"
  by (auto simp: register_def admins_def Let_def find_None_filter find_Some_filter
        split: option.splits)

lemma admins_handle:
  "length (admins (fst (snd (handle L E db s req)))) \<le> max 1 (length (admins db))"
proof (cases req)
  case (Register m name email pw role)
  then show ?thesis using admins_register by simp
next
  case (ResetPassword m token pw)
  then show ?thesis by (simp add: admins_reset)
next
  case (UpdateSecurity cur np ne)
  then show ?thesis by (simp add: admins_security)
qed (simp_all add: admins_def users_other)

lemma admins_run:
  "length (admins (run L db reqs)) \<le> max 1 (length (admins db))"
proof (induction reqs arbitrary: db)
  case Nil
  then show ?case by simp
next
  case (Cons x reqs)
  obtain E s req where x: "x = (E, s, req)" by (cases x) auto
  have "length (admins (run L (fst (snd (handle L E db s req))) reqs)) \<le>
          max 1 (length (admins (fst (snd (handle L E db s req)))))"
    by (rule Cons.IH)
  also have "\<dots> \<le> max 1 (length (admins db))"
    using admins_handle [of L E db s req] by simp
  finally show ?case by (simp add: x)
qed

text \<open>
  C7, as amended. \<open>register\<close> looks at the address first. With the role \<open>admin\<close>
  requested and an admin account present it creates nothing; its answer is ``An admin
  already exists'' when the address is free (and ``Email already registered'' when it
  is taken). With no admin account and a free address it creates the admin account.
  So one registration, and any run of requests, leaves at most one admin account, or as
  many as there were before (no other handler of lms.py creates an account with the
  role \<open>admin\<close> or changes a role).
\<close>

theorem register_admin_once:
  "(role = Some ''admin'' \<and> admins db \<noteq> [] \<and> find (\<lambda>u. u_email u = email) (users db) = None \<longrightarrow>
      register L now db s POST name email pw role =
        (Redirect ''register'' None, db,
         flash s ''An admin already exists. Cannot create another admin.'' ''danger'')) \<and>
   (role = Some ''admin'' \<and> admins db \<noteq> [] \<longrightarrow>
      fst (snd (register L now db s m name email pw role)) = db) \<and>
   (role = Some ''admin'' \<and> admins db = [] \<and> find (\<lambda>u. u_email u = email) (users db) = None \<longrightarrow>
      register L now db s POST name email pw role =
        (Redirect ''login'' None,
         db\<lparr>users := users db @
               [\<lparr>u_id = next_id (map u_id (users db)), u_name = name, u_email = email,
                 u_password_hash = generate_password_hash L pw, u_role = ''admin'',
                 u_created_at = now, u_profile_pic = None, u_phone = None,
                 u_address = None, u_about = None\<rparr>]\<rparr>,
         flash s ''Account created. Please login.'' ''success'')) \<and>
   length (admins (fst (snd (register L now db s m name email pw role)))) \<le> max 1 (length (admins db)) \<and>
   length (admins (run L db reqs)) \<le> max 1 (length (admins db))"
  using admins_register [of L now db s m name email pw role] admins_run [of L db reqs]
  by (auto simp: register_def Let_def find_None_filter find_Some_filter admins_def)

text \<open>
  An instance: the first admin is created in the empty database; a second one, with a
  free address, is refused.
\<close>

theorem register_admin_once_witness:
  "admins empty_db = [] \<and>
   find (\<lambda>u. u_email u = ''root@x'') (users empty_db) = None \<and>
   register sample_lib 0 empty_db anonymous POST ''Root'' ''root@x'' ''rootpass'' (Some ''admin'') =
     (Redirect ''login'' None,
      empty_db\<lparr>users := [\<lparr>u_id = 1, u_name = ''Root'', u_email = ''root@x'',
                           u_password_hash = ''hash:rootpass'', u_role = ''admin'',
                           u_created_at = 0, u_profile_pic = None, u_phone = None,
                           u_address = None, u_about = None\<rparr>]\<rparr>,
      flash anonymous ''Account created. Please login.'' ''success'') \<and>
   admins admin_db \<noteq> [] \<and>
   find (\<lambda>u. u_email u = ''two@x'') (users admin_db) = None \<and>
   register sample_lib 5 admin_db anonymous POST ''Two'' ''two@x'' ''twopass'' (Some ''admin'') =
     (Redirect ''register'' None, admin_db,
      flash anonymous ''An admin already exists. Cannot create another admin.'' ''danger'') \<and>
   length (admins (fst (snd (register sample_lib 5 admin_db anonymous POST ''Two'' ''two@x'' ''twopass''
                               (Some ''admin''))))) \<le> 1"
proof -
  have a0: "admins empty_db = []" by (simp add: admins_def empty_db_def)
  have f0: "find (\<lambda>u. u_email u = ''root@x'') (users empty_db) = None" by (simp add: empty_db_def)
  have a1: "admins admin_db \<noteq> []" by (simp add: admins_def admin_db_def sample_defs)
  have l1: "length (admins admin_db) = 1" by (simp add: admins_def admin_db_def sample_defs)
  have f1: "find (\<lambda>u. u_email u = ''two@x'') (users admin_db) = None"
    by (simp add: admin_db_def sample_defs)
  have n: "next_id (map u_id (users empty_db)) = 1" "users empty_db = []"
    "generate_password_hash sample_lib ''rootpass'' = ''hash:rootpass''"
    by (simp_all add: next_id_def empty_db_def sample_lib_def)
  show ?thesis
    using register_admin_once [of "Some ''admin''" empty_db "''root@x''" sample_lib 0 anonymous
        "''Root''" "''rootpass''" POST "[]"]
      register_admin_once [of "Some ''admin''" admin_db "''two@x''" sample_lib 5 anonymous
        "''Two''" "''twopass''" POST "[]"]
      a0 f0 a1 f1 l1 n
    by simp
qed

text \<open>
  C7 as stated fails for an address that is taken: without any admin account,
  registering an admin under the address of the student \<open>a@x\<close> creates nothing; and with
  an admin account \<open>a@x\<close>, registering an admin under that address is refused as
  ``Email already registered'', not as ``An admin already exists''.
\<close>

theorem register_taken_address_counterexample:
  "admins reset_db = [] \<and>
   register sample_lib 0 reset_db anonymous POST ''Root'' ''a@x'' ''rootpass'' (Some ''admin'') =
     (Redirect ''register'' None, reset_db, flash anonymous ''Email already registered'' ''danger'') \<and>
   admins (admin_db) \<noteq> [] \<and>
   register sample_lib 0 (admin_db) anonymous POST
       ''Root'' ''a@x'' ''rootpass'' (Some ''admin'') =
     (Redirect ''register'' None, admin_db,
      flash anonymous ''Email already registered'' ''danger'')"
  by (simp add: register_def admins_def reset_db_def admin_db_def sample_defs)

section \<open>Enrollment is idempotent\<close>

text \<open>
  C4. An admin enrolls a student in a batch twice (the pair has at most one
  enrollment row before, as in every state the handler produces): after the first
  call and after the second the pair has exactly one row; the second call returns the
  database of the first unchanged, redirects as the first does, and flashes ``Student
  already enrolled'' in the category \<open>info\<close>.
\<close>

theorem enroll_idempotent:
  assumes adm: "is_admin db s" "is_admin db s'"
    and ne: "us \<noteq> []" "bs \<noteq> []"
    and pi: "py_int L us = Some uid" "py_int L bs = Some bid"
    and inv: "length (enrollment_rows db uid bid) \<le> 1"
    and e1: "enroll_student L now1 db s (Some us) (Some bs) = (r1, db1, s1)"
    and e2: "enroll_student L now2 db1 s' (Some us) (Some bs) = (r2, db2, s2)"
  shows "length (enrollment_rows db1 uid bid) = 1 \<and>
         length (enrollment_rows db2 uid bid) = 1 \<and>
         db2 = db1 \<and>
         r2 = Redirect ''admin_dashboard'' None \<and>
         s2 = flash s' ''Student already enrolled'' ''info''"
proof -
  have rows: "(find (\<lambda>e. e_user_id e = Some uid \<and> e_batch_id e = Some bid) (enrollments db) \<noteq> None) =
                (enrollment_rows db uid bid \<noteq> [])" for db
    by (simp add: find_Some_filter enrollment_rows_def)
  have one: "length (enrollment_rows db1 uid bid) = 1" and u1: "users db1 = users db"
    using e1 adm(1) ne pi inv rows [of db] length_one [of "enrollment_rows db uid bid"]
    by (auto simp: enroll_student_def falsy_def enrollment_rows_def split: if_splits)
  have adm1: "is_admin db1 s'"
    using adm(2) unfolding is_admin_def current_user_def get_user_def u1 .
  have f: "find (\<lambda>e. e_user_id e = Some uid \<and> e_batch_id e = Some bid) (enrollments db1) \<noteq> None"
    using one rows [of db1] by auto
  show ?thesis
    using e2 adm1 ne pi f one by (auto simp: enroll_student_def falsy_def)
qed

text \<open>An instance: admin 1 enrolls student 3 in batch 7 at times 10 and 20.\<close>

theorem enroll_idempotent_witness:
  "is_admin admin_db (logged_in 1) \<and>
   py_int sample_lib ''3'' = Some 3 \<and> py_int sample_lib ''7'' = Some 7 \<and>
   length (enrollment_rows admin_db 3 7) \<le> 1 \<and>
   length (enrollment_rows
     (fst (snd (enroll_student sample_lib 20
        (fst (snd (enroll_student sample_lib 10 admin_db (logged_in 1) (Some ''3'') (Some ''7''))))
        (logged_in 1) (Some ''3'') (Some ''7'')))) 3 7) = 1 \<and>
   fst (snd (enroll_student sample_lib 20
        (fst (snd (enroll_student sample_lib 10 admin_db (logged_in 1) (Some ''3'') (Some ''7''))))
        (logged_in 1) (Some ''3'') (Some ''7''))) =
     fst (snd (enroll_student sample_lib 10 admin_db (logged_in 1) (Some ''3'') (Some ''7''))) \<and>
   snd (snd (enroll_student sample_lib 20
        (fst (snd (enroll_student sample_lib 10 admin_db (logged_in 1) (Some ''3'') (Some ''7''))))
        (logged_in 1) (Some ''3'') (Some ''7''))) =
     flash (logged_in 1) ''Student already enrolled'' ''info''"
proof -
  let ?X1 = "enroll_student sample_lib 10 admin_db (logged_in 1) (Some ''3'') (Some ''7'')"
  let ?X2 = "enroll_student sample_lib 20 (fst (snd ?X1)) (logged_in 1) (Some ''3'') (Some ''7'')"
  have adm: "is_admin admin_db (logged_in 1)"
    by (simp add: is_admin_def current_user_def get_user_def admin_db_def sample_defs)
  have ne: "''3'' \<noteq> []" "''7'' \<noteq> []" by simp_all
  have pi: "py_int sample_lib ''3'' = Some 3" "py_int sample_lib ''7'' = Some 7"
    by (simp_all add: sample_lib_def digits_int_def)
  have inv: "length (enrollment_rows admin_db 3 7) \<le> 1"
    by (simp add: enrollment_rows_def admin_db_def empty_db_def)
  have e1: "?X1 = (fst ?X1, fst (snd ?X1), snd (snd ?X1))" by simp
  have e2: "?X2 = (fst ?X2, fst (snd ?X2), snd (snd ?X2))" by simp
  show ?thesis
    using enroll_idempotent [OF adm adm ne pi inv e1 e2] adm pi inv by simp
qed

section \<open>A trainer changes the e-mail address\<close>

lemma pk_row_unique:
  assumes "distinct (map f xs)" and "x \<in> set xs" and "y \<in> set xs" and "f x = f y"
  shows "x = y"
  using assms by (meson distinct_map inj_onD)

lemma find_in_set: "find P xs = Some x \<Longrightarrow> x \<in> set xs \<and> P x"
  by (auto simp: find_Some_iff)

lemma trainer_update_noop:
  assumes pk: "distinct (map t_id ts)" and f: "find (\<lambda>t. t_email t = e) ts = Some tr"
  shows "map (\<lambda>t. if t_id t = t_id tr then t\<lparr>t_email := e\<rparr> else t) ts = ts"
proof (rule map_idI)
  fix t assume t: "t \<in> set ts"
  from f have tr: "tr \<in> set ts" "t_email tr = e" using find_in_set [OF f] by auto
  show "(if t_id t = t_id tr then t\<lparr>t_email := e\<rparr> else t) = t"
  proof (cases "t_id t = t_id tr")
    case True
    then have "t = tr" using pk_row_unique [OF pk t tr(1)] by simp
    with tr(2) show ?thesis by simp
  next
    case False
    then show ?thesis by simp
  qed
qed

lemma security_email_trainers:
  assumes "trainer_pk db" and "security_email db user s ne = Inr (user', ts, s')"
  shows "ts = trainers db"
  using assms trainer_update_noop [of "trainers db"]
  by (auto simp: security_email_def trainer_pk_def Let_def split: option.splits if_splits)

lemma security_password_ok:
  assumes "new_password = None \<or> new_password = Some [] \<or> (\<exists>p. new_password = Some p \<and> 6 \<le> length p)"
  shows "\<exists>user1 s1. security_password L user s new_password = Inr (user1, s1) \<and>
           u_id user1 = u_id user \<and> u_email user1 = u_email user \<and> u_role user1 = u_role user"
proof -
  consider "new_password = None" | "new_password = Some []"
    | p where "new_password = Some p" "6 \<le> length p"
    using assms by blast
  then show ?thesis
  proof cases
    case 1
    then show ?thesis by (simp add: security_password_def falsy_def)
  next
    case 2
    then show ?thesis by (simp add: security_password_def falsy_def)
  next
    case 3
    then have "p \<noteq> []" by auto
    with 3 show ?thesis by (simp add: security_password_def falsy_def)
  qed
qed

text \<open>
  C9. A logged-in trainer gives the right current password and a new, free address
  (and no new password, or one of at least 6 characters). Then \<open>update_security\<close>
  stores the new address in the account, and the trainer table is what it was, every
  row and every field: the profile is looked up under the new address, so the lookup
  never returns the profile that carries the account's old address; that profile is
  still found under the old address afterwards, and its address now differs from the
  account's. (A profile that the lookup does return already carries the new address,
  and assigning it the new address changes nothing.)
\<close>

theorem trainer_email_change_leaves_profile:
  assumes cu: "current_user db s = Some user" and role: "u_role user = ''trainer''"
    and pw: "check_password_hash L (u_password_hash user) cur"
    and np: "new_password = None \<or> new_password = Some [] \<or> (\<exists>p. new_password = Some p \<and> 6 \<le> length p)"
    and ne: "e \<noteq> []" "e \<noteq> u_email user"
    and free: "find (\<lambda>u. u_email u = e \<and> u_id u \<noteq> u_id user) (users db) = None"
    and pk: "trainer_pk db"
  shows "fst (update_security L db s cur new_password (Some e)) = Redirect ''profile'' None \<and>
         trainers (fst (snd (update_security L db s cur new_password (Some e)))) = trainers db \<and>
         map_option u_email (current_user (fst (snd (update_security L db s cur new_password (Some e)))) s) = Some e \<and>
         (\<forall>tr. find (\<lambda>t. t_email t = e) (trainers db) = Some tr \<longrightarrow> t_email tr \<noteq> u_email user) \<and>
         (\<forall>tr. find (\<lambda>t. t_email t = u_email user) (trainers db) = Some tr \<longrightarrow>
            find (\<lambda>t. t_email t = u_email user)
                 (trainers (fst (snd (update_security L db s cur new_password (Some e))))) = Some tr \<and>
            t_email tr \<noteq> e)"
proof -
  let ?R = "update_security L db s cur new_password (Some e)"
  obtain user1 s1 where sp: "security_password L user s new_password = Inr (user1, s1)"
    and u1: "u_id user1 = u_id user" "u_email user1 = u_email user" "u_role user1 = u_role user"
    using security_password_ok [OF np, of L user s] by blast
  let ?ts = "if u_role user1 = ''trainer'' then
               (case find (\<lambda>t. t_email t = e) (trainers db) of None \<Rightarrow> trainers db
                | Some tr \<Rightarrow> map (\<lambda>t. if t_id t = t_id tr then t\<lparr>t_email := e\<rparr> else t) (trainers db))
             else trainers db"
  have se: "security_email db user1 s1 (Some e) =
              Inr (user1\<lparr>u_email := e\<rparr>, ?ts, flash s1 ''Email updated successfully.'' ''success'')"
    using ne free u1 by (simp add: security_email_def Let_def)
  have ts: "?ts = trainers db"
    using security_email_trainers [OF pk se] .
  let ?f = "\<lambda>u. if u_id u = u_id user
                 then u\<lparr>u_password_hash := u_password_hash user1, u_email := e\<rparr> else u"
  have R: "?R = (Redirect ''profile'' None,
                 db\<lparr>users := map ?f (users db), trainers := trainers db\<rparr>,
                 flash s1 ''Email updated successfully.'' ''success'')"
    using cu pw sp se ts by (simp add: update_security_def)
  obtain uid where uid: "user_id s = Some uid" "uid \<noteq> 0" "find (\<lambda>u. u_id u = uid) (users db) = Some user"
    using cu by (auto simp: current_user_def get_user_def split: option.splits if_splits)
  have id: "u_id user = uid" using find_in_set [OF uid(3)] by simp
  have "find (\<lambda>u. u_id u = uid) (map ?f (users db)) = map_option ?f (find (\<lambda>u. u_id u = uid) (users db))"
    by (rule find_map_same) simp
  then have "find (\<lambda>u. u_id u = uid) (map ?f (users db)) = Some (?f user)"
    using uid(3) by simp
  then have cu': "current_user (fst (snd ?R)) s = Some (?f user)"
    using uid(1,2) unfolding R current_user_def get_user_def by simp
  have a3: "map_option u_email (current_user (fst (snd ?R)) s) = Some e"
    unfolding cu' by simp
  have a4: "t_email tr \<noteq> u_email user" if "find (\<lambda>t. t_email t = e) (trainers db) = Some tr" for tr
    using find_in_set [OF that] ne by auto
  have a5: "find (\<lambda>t. t_email t = u_email user) (trainers (fst (snd ?R))) = Some tr \<and> t_email tr \<noteq> e"
    if "find (\<lambda>t. t_email t = u_email user) (trainers db) = Some tr" for tr
    using find_in_set [OF that] that ne by (auto simp: R)
  show ?thesis
    using a3 a4 a5 by (simp add: R)
qed

text \<open>
  An instance: trainer 2 moves from \<open>t2@x\<close> to \<open>moved@x\<close>; the profile stays \<open>t2@x\<close>.
\<close>

theorem trainer_email_change_witness:
  "current_user trainer_db (logged_in 2) = Some (mk_user 2 ''t2@x'' ''secret'' ''trainer'') \<and>
   check_password_hash sample_lib (u_password_hash (mk_user 2 ''t2@x'' ''secret'' ''trainer'')) ''secret'' \<and>
   find (\<lambda>u. u_email u = ''moved@x'' \<and> u_id u \<noteq> 2) (users trainer_db) = None \<and>
   trainer_pk trainer_db \<and>
   find (\<lambda>t. t_email t = ''t2@x'') (trainers trainer_db) = Some (mk_trainer 2 ''t2@x'') \<and>
   trainers (fst (snd (update_security sample_lib trainer_db (logged_in 2) ''secret'' None (Some ''moved@x'')))) =
     trainers trainer_db \<and>
   map_option u_email
     (current_user (fst (snd (update_security sample_lib trainer_db (logged_in 2) ''secret'' None
                                (Some ''moved@x'')))) (logged_in 2)) = Some ''moved@x'' \<and>
   find (\<lambda>t. t_email t = ''t2@x'')
     (trainers (fst (snd (update_security sample_lib trainer_db (logged_in 2) ''secret'' None
                            (Some ''moved@x''))))) = Some (mk_trainer 2 ''t2@x'')"
proof -
  let ?u = "mk_user 2 ''t2@x'' ''secret'' ''trainer''"
  have cu: "current_user trainer_db (logged_in 2) = Some ?u"
    by (simp add: current_user_def get_user_def sample_defs)
  have role: "u_role ?u = ''trainer''" by (simp add: mk_user_def)
  have pw: "check_password_hash sample_lib (u_password_hash ?u) ''secret''"
    by (simp add: sample_lib_def mk_user_def)
  have np: "(None :: string option) = None \<or> None = Some [] \<or> (\<exists>p. None = Some p \<and> 6 \<le> length p)"
    by simp
  have ne: "''moved@x'' \<noteq> []" "''moved@x'' \<noteq> u_email ?u" by (simp_all add: mk_user_def)
  have free: "find (\<lambda>u. u_email u = ''moved@x'' \<and> u_id u \<noteq> u_id ?u) (users trainer_db) = None"
    by (simp add: sample_defs)
  have free': "find (\<lambda>u. u_email u = ''moved@x'' \<and> u_id u \<noteq> 2) (users trainer_db) = None"
    by (simp add: sample_defs)
  have pk: "trainer_pk trainer_db" by (simp add: trainer_pk_def sample_defs)
  have p: "find (\<lambda>t. t_email t = u_email ?u) (trainers trainer_db) = Some (mk_trainer 2 ''t2@x'')"
    by (simp add: sample_defs)
  have p': "find (\<lambda>t. t_email t = ''t2@x'') (trainers trainer_db) = Some (mk_trainer 2 ''t2@x'')"
    by (simp add: sample_defs)
  have em: "u_email ?u = ''t2@x''" by (simp add: mk_user_def)
  note t = trainer_email_change_leaves_profile [OF cu role pw np ne free pk]
  have a: "trainers (fst (snd (update_security sample_lib trainer_db (logged_in 2) ''secret'' None (Some ''moved@x'')))) =
     trainers trainer_db"
    by (rule t [THEN conjunct2, THEN conjunct1])
  have b: "map_option u_email
     (current_user (fst (snd (update_security sample_lib trainer_db (logged_in 2) ''secret'' None
                                (Some ''moved@x'')))) (logged_in 2)) = Some ''moved@x''"
    by (rule t [THEN conjunct2, THEN conjunct2, THEN conjunct1])
  have c: "find (\<lambda>t. t_email t = ''t2@x'')
     (trainers (fst (snd (update_security sample_lib trainer_db (logged_in 2) ''secret'' None
                            (Some ''moved@x''))))) = Some (mk_trainer 2 ''t2@x'')"
    using t [THEN conjunct2, THEN conjunct2, THEN conjunct2, THEN conjunct2, THEN spec,
        of "mk_trainer 2 ''t2@x''", THEN mp, OF p, THEN conjunct1]
    by (simp only: em)
  show ?thesis using cu pw free' pk p' a b c by blast
qed

section \<open>Marking a recording as completed\<close>

lemma bind_parameter_storable:
  "bind_parameter JNull = Inr None"
  "sqlite_integer i \<Longrightarrow> bind_parameter (JInt i) = Inr (Some i)"
  by (simp_all add: bind_parameter_def)

lemma find_first_match:
  assumes "Q pr" and "\<forall>x \<in> set pre. \<not> Q x"
  shows "find Q (pre @ pr # post) = Some pr"
proof -
  have "find Q pre = None" using assms(2) by (simp add: find_None_iff)
  then show ?thesis using assms(1) by (simp add: find_append_case)
qed

lemma map_update_pk:
  assumes "distinct (map k (pre @ pr # post))"
  shows "map (\<lambda>p. if k p = k pr then g p else p) (pre @ pr # post) = pre @ g pr # post"
proof -
  have pre: "k x \<noteq> k pr" if "x \<in> set pre" for x
    using assms that by (auto simp: image_iff)
  have post: "k x \<noteq> k pr" if "x \<in> set post" for x
    using assms that by (auto simp: image_iff)
  have "map (\<lambda>p. if k p = k pr then g p else p) pre = pre"
    by (rule map_idI) (simp add: pre)
  moreover have "map (\<lambda>p. if k p = k pr then g p else p) post = post"
    by (rule map_idI) (simp add: post)
  ultimately show ?thesis by simp
qed

lemma update_progress_new_row:
  assumes "current_user db s = Some u" and "u_role u = ''student''"
    and "bind_parameter v = Inr rid"
    and "find (\<lambda>p. sp_user_id p = Some (u_id u) \<and> sp_recording_id p = rid) (progress db) = None"
  shows "update_progress now db s v =
           (Json 200 ''success'' ''Progress updated'',
            db\<lparr>progress := progress db @
                  [\<lparr>sp_id = next_id (map sp_id (progress db)), sp_user_id = Some (u_id u),
                    sp_recording_id = rid, sp_completed = True, sp_completed_at = Some now\<rparr>]\<rparr>,
            s)"
  using assms by (simp add: update_progress_def)

lemma update_progress_old_row:
  assumes "current_user db s = Some u" and "u_role u = ''student''"
    and "bind_parameter v = Inr rid"
    and pk: "progress_pk db" and split: "progress db = pre @ pr # post"
    and q: "sp_user_id pr = Some (u_id u) \<and> sp_recording_id pr = rid"
      "\<forall>x \<in> set pre. \<not> (sp_user_id x = Some (u_id u) \<and> sp_recording_id x = rid)"
  shows "update_progress now db s v =
           (Json 200 ''success'' ''Progress updated'',
            db\<lparr>progress := pre @ pr\<lparr>sp_completed := True, sp_completed_at := Some now\<rparr> # post\<rparr>,
            s)"
proof -
  have f: "find (\<lambda>p. sp_user_id p = Some (u_id u) \<and> sp_recording_id p = rid) (progress db) = Some pr"
    unfolding split using q by (intro find_first_match) auto
  have d: "distinct (map sp_id (pre @ pr # post))"
    using pk by (simp add: progress_pk_def split)
  have "map (\<lambda>p. if sp_id p = sp_id pr then p\<lparr>sp_completed := True, sp_completed_at := Some now\<rparr>
                   else p) (progress db) =
          pre @ pr\<lparr>sp_completed := True, sp_completed_at := Some now\<rparr> # post"
    unfolding split by (rule map_update_pk [OF d])
  then show ?thesis
    using assms(1,2,3) f by (simp add: update_progress_def)
qed

lemma update_progress_row_after:
  assumes "current_user db s = Some u" and "u_role u = ''student''"
    and "bind_parameter v = Inr rid"
  shows "fst (update_progress now db s v) = Json 200 ''success'' ''Progress updated'' \<and>
         (\<exists>p. find (\<lambda>p. sp_user_id p = Some (u_id u) \<and> sp_recording_id p = rid)
                    (progress (fst (snd (update_progress now db s v)))) = Some p \<and>
              sp_completed p \<and> sp_completed_at p = Some now)"
proof -
  have upd: "\<exists>q. find (\<lambda>p. sp_user_id p = Some uid \<and> sp_recording_id p = rid)
                 (map (\<lambda>p. if sp_id p = sp_id pr
                           then p\<lparr>sp_completed := True, sp_completed_at := Some now\<rparr> else p) ps) = Some q \<and>
           sp_completed q \<and> sp_completed_at q = Some now"
    if "find (\<lambda>p. sp_user_id p = Some uid \<and> sp_recording_id p = rid) ps = Some pr" for uid ps pr
  proof -
    let ?f = "\<lambda>p. if sp_id p = sp_id pr then p\<lparr>sp_completed := True, sp_completed_at := Some now\<rparr> else p"
    have "find (\<lambda>p. sp_user_id p = Some uid \<and> sp_recording_id p = rid) (map ?f ps) =
            map_option ?f (find (\<lambda>p. sp_user_id p = Some uid \<and> sp_recording_id p = rid) ps)"
      by (rule find_map_same) simp
    with that show ?thesis by simp
  qed
  show ?thesis
    using upd assms
    by (auto simp: update_progress_def find_append_case split: option.splits)
qed

text \<open>
  C10, as amended. For a logged-in student and a recording id that is null or an
  integer SQLite can store (the theorem asks nothing of the recordings or the
  enrollments, so the id may belong to a batch the student is not enrolled in, or to no
  recording), \<open>update_progress\<close> answers success and leaves a progress row of the
  student for that id with \<open>completed\<close> set and \<open>completed_at\<close> the time of the request.
  When the student had no row for the id, the new row is appended and nothing else
  changes; when there was one, the first such row gets the two fields and every other
  row, every other table and the session are as before (the ids of the progress rows
  being a primary key). Without a logged-in user, or for a role other than student, the
  answer is Unauthorized (401) and nothing changes.
\<close>

theorem update_progress_storable_id:
  "(\<forall>u rid. current_user db s = Some u \<and> u_role u = ''student'' \<and>
        (v = JNull \<and> rid = None \<or> (\<exists>i. v = JInt i \<and> sqlite_integer i \<and> rid = Some i)) \<longrightarrow>
      fst (update_progress now db s v) = Json 200 ''success'' ''Progress updated'' \<and>
      (\<exists>p. find (\<lambda>p. sp_user_id p = Some (u_id u) \<and> sp_recording_id p = rid)
                 (progress (fst (snd (update_progress now db s v)))) = Some p \<and>
           sp_completed p \<and> sp_completed_at p = Some now) \<and>
      (find (\<lambda>p. sp_user_id p = Some (u_id u) \<and> sp_recording_id p = rid) (progress db) = None \<longrightarrow>
         update_progress now db s v =
           (Json 200 ''success'' ''Progress updated'',
            db\<lparr>progress := progress db @
                  [\<lparr>sp_id = next_id (map sp_id (progress db)), sp_user_id = Some (u_id u),
                    sp_recording_id = rid, sp_completed = True, sp_completed_at = Some now\<rparr>]\<rparr>,
            s)) \<and>
      (\<forall>pre pr post.
         progress_pk db \<and> progress db = pre @ pr # post \<and>
         sp_user_id pr = Some (u_id u) \<and> sp_recording_id pr = rid \<and>
         (\<forall>x \<in> set pre. \<not> (sp_user_id x = Some (u_id u) \<and> sp_recording_id x = rid)) \<longrightarrow>
         update_progress now db s v =
           (Json 200 ''success'' ''Progress updated'',
            db\<lparr>progress := pre @ pr\<lparr>sp_completed := True, sp_completed_at := Some now\<rparr> # post\<rparr>,
            s))) \<and>
   (current_user db s = None \<or> (\<exists>u. current_user db s = Some u \<and> u_role u \<noteq> ''student'') \<longrightarrow>
      update_progress now db s v = (Json 401 ''error'' ''Unauthorized'', db, s))"
proof (intro conjI allI impI, goal_cases)
  case (1 u rid)
  then have "bind_parameter v = Inr rid" using bind_parameter_storable by auto
  with 1 show ?case using update_progress_row_after [of db s u v rid now] by simp
next
  case (2 u rid)
  then have "bind_parameter v = Inr rid" using bind_parameter_storable by auto
  with 2 show ?case using update_progress_row_after [of db s u v rid now] by simp
next
  case (3 u rid)
  then have "bind_parameter v = Inr rid" using bind_parameter_storable by auto
  with 3 show ?case using update_progress_new_row [of db s u v rid now] by simp
next
  case (4 u rid pre pr post)
  then have "bind_parameter v = Inr rid" using bind_parameter_storable by auto
  with 4 show ?case using update_progress_old_row [of db s u v rid pre pr post now] by simp
next
  case 5
  then show ?case by (auto simp: update_progress_def)
qed

text \<open>
  An instance: student 3, enrolled nowhere, marks recording 999 (which does not
  exist); marking it again later refreshes the timestamp of that row and leaves the
  row of recording 4 alone; trainer 1 and an anonymous client are refused.
\<close>

theorem update_progress_storable_id_witness:
  "current_user trainer_db (logged_in 3) = Some (mk_user 3 ''s@x'' ''secret'' ''student'') \<and>
   enrollments trainer_db = [] \<and>
   get_recording trainer_db 999 = None \<and>
   sqlite_integer 999 \<and>
   update_progress 50 trainer_db (logged_in 3) (JInt 999) =
     (Json 200 ''success'' ''Progress updated'',
      trainer_db\<lparr>progress :=
        [\<lparr>sp_id = 1, sp_user_id = Some 3, sp_recording_id = Some 999, sp_completed = True,
          sp_completed_at = Some 50\<rparr>]\<rparr>,
      logged_in 3) \<and>
   progress_pk two_marks_db \<and>
   update_progress 70 two_marks_db (logged_in 3) (JInt 999) =
     (Json 200 ''success'' ''Progress updated'',
      two_marks_db\<lparr>progress :=
        [\<lparr>sp_id = 1, sp_user_id = Some 3, sp_recording_id = Some 999, sp_completed = True,
          sp_completed_at = Some 70\<rparr>,
         \<lparr>sp_id = 2, sp_user_id = Some 3, sp_recording_id = Some 4, sp_completed = True,
          sp_completed_at = Some 60\<rparr>]\<rparr>,
      logged_in 3) \<and>
   current_user trainer_db (logged_in 1) = Some (mk_user 1 ''new@x'' ''secret'' ''trainer'') \<and>
   update_progress 50 trainer_db (logged_in 1) (JInt 4) =
     (Json 401 ''error'' ''Unauthorized'', trainer_db, logged_in 1) \<and>
   update_progress 50 trainer_db anonymous (JInt 4) =
     (Json 401 ''error'' ''Unauthorized'', trainer_db, anonymous)"
proof -
  let ?st = "mk_user 3 ''s@x'' ''secret'' ''student''"
  let ?tr = "mk_user 1 ''new@x'' ''secret'' ''trainer''"
  let ?p1 = "\<lparr>sp_id = 1, sp_user_id = Some 3, sp_recording_id = Some 999, sp_completed = True,
              sp_completed_at = Some 50\<rparr>"
  let ?p2 = "\<lparr>sp_id = 2, sp_user_id = Some 3, sp_recording_id = Some 4, sp_completed = True,
              sp_completed_at = Some 60\<rparr>"
  have cs: "current_user trainer_db (logged_in 3) = Some ?st"
    by (simp add: current_user_def get_user_def sample_defs)
  have cs2: "current_user two_marks_db (logged_in 3) = Some ?st"
    by (simp add: current_user_def get_user_def two_marks_db_def sample_defs)
  have rs: "u_role ?st = ''student''" and id: "u_id ?st = 3" by (simp_all add: mk_user_def)
  have ct: "current_user trainer_db (logged_in 1) = Some ?tr"
    by (simp add: current_user_def get_user_def sample_defs)
  have rt: "u_role ?tr \<noteq> ''student''" by (simp add: mk_user_def)
  have ca: "current_user trainer_db anonymous = None"
    by (simp add: current_user_def sample_defs)
  have e: "enrollments trainer_db = []" by (simp add: sample_defs)
  have g: "get_recording trainer_db 999 = None" by (simp add: get_recording_def sample_defs)
  have st: "sqlite_integer 999" by (simp add: sqlite_integer_def)
  have dom: "JInt 999 = JNull \<and> Some 999 = None \<or>
             (\<exists>i. JInt 999 = JInt i \<and> sqlite_integer i \<and> Some 999 = Some i)"
    using st by simp
  have none: "find (\<lambda>p. sp_user_id p = Some (u_id ?st) \<and> sp_recording_id p = Some 999)
                (progress trainer_db) = None"
    by (simp add: sample_defs)
  have h1: "current_user trainer_db (logged_in 3) = Some ?st \<and> u_role ?st = ''student'' \<and>
            (JInt 999 = JNull \<and> Some 999 = None \<or>
             (\<exists>i. JInt 999 = JInt i \<and> sqlite_integer i \<and> Some 999 = Some i))"
    using cs rs dom by blast
  have h2: "current_user two_marks_db (logged_in 3) = Some ?st \<and> u_role ?st = ''student'' \<and>
            (JInt 999 = JNull \<and> Some 999 = None \<or>
             (\<exists>i. JInt 999 = JInt i \<and> sqlite_integer i \<and> Some 999 = Some i))"
    using cs2 rs dom by blast
  have pt: "progress trainer_db = []" by (simp add: sample_defs)
  have a1: "update_progress 50 trainer_db (logged_in 3) (JInt 999) =
     (Json 200 ''success'' ''Progress updated'', trainer_db\<lparr>progress := [?p1]\<rparr>, logged_in 3)"
    using update_progress_storable_id [of trainer_db "logged_in 3" "JInt 999" 50,
        THEN conjunct1, THEN spec, THEN spec, of ?st "Some 999", THEN mp, OF h1,
        THEN conjunct2, THEN conjunct2, THEN conjunct1, THEN mp, OF none, unfolded pt id]
    by (simp add: next_id_def)
  have pk: "progress_pk two_marks_db"
    by (simp add: progress_pk_def two_marks_db_def)
  have sp: "progress two_marks_db = [] @ ?p1 # [?p2]"
    by (simp add: two_marks_db_def)
  have h3: "progress_pk two_marks_db \<and> progress two_marks_db = [] @ ?p1 # [?p2] \<and>
            sp_user_id ?p1 = Some (u_id ?st) \<and> sp_recording_id ?p1 = Some 999 \<and>
            (\<forall>x \<in> set []. \<not> (sp_user_id x = Some (u_id ?st) \<and> sp_recording_id x = Some 999))"
    using pk sp by (simp add: id)
  have a2: "update_progress 70 two_marks_db (logged_in 3) (JInt 999) =
     (Json 200 ''success'' ''Progress updated'',
      two_marks_db\<lparr>progress := [?p1\<lparr>sp_completed := True, sp_completed_at := Some 70\<rparr>, ?p2]\<rparr>,
      logged_in 3)"
    using update_progress_storable_id [of two_marks_db "logged_in 3" "JInt 999" 70,
        THEN conjunct1, THEN spec, THEN spec, of ?st "Some 999", THEN mp, OF h2,
        THEN conjunct2, THEN conjunct2, THEN conjunct2, THEN spec, THEN spec, THEN spec,
        of "[]" ?p1 "[?p2]", THEN mp, OF h3]
    by simp
  have a3: "update_progress 50 trainer_db (logged_in 1) (JInt 4) =
     (Json 401 ''error'' ''Unauthorized'', trainer_db, logged_in 1)"
    using update_progress_storable_id [of trainer_db "logged_in 1" "JInt 4" 50] ct rt by blast
  have a4: "update_progress 50 trainer_db anonymous (JInt 4) =
     (Json 401 ''error'' ''Unauthorized'', trainer_db, anonymous)"
    using update_progress_storable_id [of trainer_db anonymous "JInt 4" 50] ca by blast
  show ?thesis using cs e g st a1 pk a2 ct a3 a4 by simp
qed

text \<open>
  C10 as stated fails for values SQLite cannot take: for the student 3 and the
  recording id 2^63 the handler raises OverflowError when the query is bound, and for a
  list the driver refuses the parameter; the request ends with an error and no row is
  stored.
\<close>

theorem update_progress_overflow_counterexample:
  "current_user trainer_db (logged_in 3) = Some (mk_user 3 ''s@x'' ''secret'' ''student'') \<and>
   u_role (mk_user 3 ''s@x'' ''secret'' ''student'') = ''student'' \<and>
   update_progress 50 trainer_db (logged_in 3) (JInt 9223372036854775808) =
     (Crash OverflowError, trainer_db, logged_in 3) \<and>
   update_progress 50 trainer_db (logged_in 3) JArray =
     (Crash BindError, trainer_db, logged_in 3)"
proof -
  have cs: "current_user trainer_db (logged_in 3) = Some (mk_user 3 ''s@x'' ''secret'' ''student'')"
    by (simp add: current_user_def get_user_def sample_defs)
  have rs: "u_role (mk_user 3 ''s@x'' ''secret'' ''student'') = ''student''"
    by (simp add: mk_user_def)
  show ?thesis
    using cs rs by (simp add: update_progress_def bind_parameter_def sqlite_integer_def)
qed

section \<open>Progress of a student in a batch\<close>

lemma filter_pk_le_one:
  "distinct (map f xs) \<Longrightarrow> length (filter (\<lambda>x. f x = j \<and> Q x) xs) \<le> 1"
  by (induction xs) (auto simp: filter_empty_conv intro: rev_image_eqI)

lemma filter_key_le_one:
  assumes "distinct (map f xs)"
  shows "length (filter (\<lambda>x. k = Some (f x) \<and> Q x) xs) \<le> 1"
proof (cases k)
  case None
  then show ?thesis by simp
next
  case (Some j)
  have "(\<lambda>x. k = Some (f x) \<and> Q x) = (\<lambda>x. f x = j \<and> Q x)"
    using Some by auto
  then show ?thesis using filter_pk_le_one [OF assms, of j Q] by simp
qed

lemma concat_singletons:
  "(\<And>x. x \<in> set xs \<Longrightarrow> length (g x) \<le> 1) \<Longrightarrow>
   length (concat (map g xs)) = length (filter (\<lambda>x. g x \<noteq> []) xs)"
proof (induction xs)
  case Nil
  then show ?case by simp
next
  case (Cons x xs)
  have "length (g x) \<le> 1" using Cons.prems by simp
  then have "length (g x) = (if g x \<noteq> [] then 1 else 0)" by (cases "g x") auto
  then show ?case using Cons by simp
qed

lemma completed_recordings_count:
  assumes "recording_pk db"
  shows "completed_recordings db uid b =
           length (filter (\<lambda>p. sp_user_id p = Some uid \<and> sp_completed p \<and>
                               (\<exists>r \<in> set (batch_recordings db b). sp_recording_id p = Some (r_id r)))
                          (progress db))"
proof -
  let ?g = "\<lambda>p. filter (\<lambda>r. sp_recording_id p = Some (r_id r) \<and> r_batch_id r = Some (b_id b)) (recordings db)"
  let ?ps = "filter (\<lambda>p. sp_user_id p = Some uid \<and> sp_completed p) (progress db)"
  have "length (concat (map ?g ?ps)) = length (filter (\<lambda>p. ?g p \<noteq> []) ?ps)"
  proof (rule concat_singletons)
    fix p
    show "length (?g p) \<le> 1"
      using filter_key_le_one [of r_id "recordings db" "sp_recording_id p"
          "\<lambda>r. r_batch_id r = Some (b_id b)"] assms
      by (simp add: recording_pk_def)
  qed
  also have "\<dots> = length (filter (\<lambda>p. (sp_user_id p = Some uid \<and> sp_completed p) \<and> ?g p \<noteq> []) (progress db))"
    by (simp add: conj_commute)
  also have "(\<lambda>p. (sp_user_id p = Some uid \<and> sp_completed p) \<and> ?g p \<noteq> []) =
             (\<lambda>p. sp_user_id p = Some uid \<and> sp_completed p \<and>
                   (\<exists>r \<in> set (batch_recordings db b). sp_recording_id p = Some (r_id r)))"
    by (auto simp: filter_empty_conv batch_recordings_def)
  finally show ?thesis by (simp add: completed_recordings_def)
qed

lemma completed_recordings_empty:
  "batch_recordings db b = [] \<Longrightarrow> completed_recordings db uid b = 0"
proof -
  assume e: "batch_recordings db b = []"
  have *: "filter (\<lambda>r. sp_recording_id p = Some (r_id r) \<and> r_batch_id r = Some (b_id b)) (recordings db) = []" for p
    using e by (auto simp: batch_recordings_def filter_empty_conv)
  show ?thesis by (simp add: completed_recordings_def *)
qed

lemma student_loop_totals:
  assumes "map (enrollment_batch db) es = map Some bs"
  shows "\<exists>m'. student_loop db u es m = Inr m' \<and>
           progress_counts m' = progress_counts m @
             map (\<lambda>b. (completed_recordings db (u_id u) b, length (batch_recordings db b))) bs \<and>
           total_available m' = total_available m + sum_list (map (\<lambda>b. length (batch_recordings db b)) bs) \<and>
           total_completed m' = total_completed m + sum_list (map (completed_recordings db (u_id u)) bs)"
  using assms
proof (induction es arbitrary: bs m)
  case Nil
  then show ?case by simp
next
  case (Cons e es)
  then obtain b bs' where bs: "bs = b # bs'" "enrollment_batch db e = Some b"
    "map (enrollment_batch db) es = map Some bs'"
    by (cases bs) auto
  let ?m1 = "\<lparr>total_available = total_available m + length (batch_recordings db b),
              total_completed = total_completed m + completed_recordings db (u_id u) b,
              next_lesson =
                (case next_lesson m of
                   Some x \<Rightarrow> Some x
                 | None \<Rightarrow>
                     map_option
                       (\<lambda>rec. \<lparr>batch_name = b_name b, recording_name = r_original_name rec,
                               recording_id = r_id rec, batch_id = b_id b\<rparr>)
                       (first_incomplete db (u_id u) (batch_recordings db b))),
              progress_counts = progress_counts m @
                [(completed_recordings db (u_id u) b, length (batch_recordings db b))]\<rparr>"
  have step: "student_loop db u (e # es) m = student_loop db u es ?m1"
    using bs(2) by (simp add: Let_def)
  from Cons.IH [OF bs(3), of ?m1] obtain m' where m': "student_loop db u es ?m1 = Inr m'"
    "progress_counts m' = progress_counts ?m1 @
       map (\<lambda>b. (completed_recordings db (u_id u) b, length (batch_recordings db b))) bs'"
    "total_available m' = total_available ?m1 + sum_list (map (\<lambda>b. length (batch_recordings db b)) bs')"
    "total_completed m' = total_completed ?m1 + sum_list (map (completed_recordings db (u_id u)) bs')"
    by blast
  show ?case
    unfolding step using m' by (simp add: bs(1))
qed

lemma percent_defined:
  "overall_progress_percent L c 0 = Inr 0 \<and> overall_progress_percent L c t \<noteq> Inl ZeroDivisionError"
  by (simp add: overall_progress_percent_def py_percent_def)


text \<open>
  C5. For a student whose enrollments all point to existing batches, the dashboard
  computes for each enrollment the pair (completed, total): total is the number of
  recordings of the batch, and completed is the number the join query counts, which
  (recording ids being a primary key) is the number of the student's progress rows
  with \<open>completed\<close> set whose recording belongs to the batch. A batch without
  recordings gives (0, 0). The percentage is 0 when the total is 0, and neither the
  percentage nor the dashboard ever ends in ZeroDivisionError.
\<close>

theorem compute_progress_defined:
  "(map (enrollment_batch db) (filter (\<lambda>e. e_user_id e = Some (u_id u)) (enrollments db)) = map Some bs \<longrightarrow>
      (\<exists>v. dashboard_student L db u = Inr v \<and>
           sv_progress_counts v =
             map (\<lambda>b. (completed_recordings db (u_id u) b, length (batch_recordings db b))) bs \<and>
           ((\<forall>b \<in> set bs. batch_recordings db b = []) \<longrightarrow>
              sv_progress_counts v = map (\<lambda>b. (0, 0)) bs \<and> sv_overall_progress_percent v = 0))) \<and>
   (recording_pk db \<longrightarrow>
      completed_recordings db uid b =
        length (filter (\<lambda>p. sp_user_id p = Some uid \<and> sp_completed p \<and>
                            (\<exists>r \<in> set (batch_recordings db b). sp_recording_id p = Some (r_id r)))
                       (progress db))) \<and>
   (batch_recordings db b = [] \<longrightarrow>
      (completed_recordings db uid b, length (batch_recordings db b)) = (0, 0)) \<and>
   overall_progress_percent L c 0 = Inr 0 \<and>
   overall_progress_percent L c t \<noteq> Inl ZeroDivisionError \<and>
   dashboard_student L db u \<noteq> Inl ZeroDivisionError"
proof -
  let ?es = "filter (\<lambda>e. e_user_id e = Some (u_id u)) (enrollments db)"
  let ?m0 = "\<lparr>total_available = 0, total_completed = 0, next_lesson = None, progress_counts = []\<rparr>"
  have nz: "student_loop db u es m \<noteq> Inl ZeroDivisionError" for es m
    by (induction es arbitrary: m) (auto simp: Let_def split: option.splits)
  have a6: "dashboard_student L db u \<noteq> Inl ZeroDivisionError"
    using nz [of ?es ?m0] percent_defined [of L]
    by (auto simp: dashboard_student_def split: sum.splits)
  have a1: "\<exists>v. dashboard_student L db u = Inr v \<and>
           sv_progress_counts v =
             map (\<lambda>b. (completed_recordings db (u_id u) b, length (batch_recordings db b))) bs \<and>
           ((\<forall>b \<in> set bs. batch_recordings db b = []) \<longrightarrow>
              sv_progress_counts v = map (\<lambda>b. (0, 0)) bs \<and> sv_overall_progress_percent v = 0)"
    if h: "map (enrollment_batch db) ?es = map Some bs"
  proof -
    from student_loop_totals [OF h, of u ?m0]
    obtain m' where m': "student_loop db u ?es ?m0 = Inr m'"
      "progress_counts m' = map (\<lambda>b. (completed_recordings db (u_id u) b, length (batch_recordings db b))) bs"
      "total_available m' = sum_list (map (\<lambda>b. length (batch_recordings db b)) bs)"
      by auto
    obtain pct where pct: "overall_progress_percent L (total_completed m') (total_available m') = Inr pct"
      by (cases "total_available m'") (auto simp: overall_progress_percent_def py_percent_def)
    have z: "pct = 0 \<and> map (\<lambda>b. (completed_recordings db (u_id u) b, length (batch_recordings db b))) bs =
               map (\<lambda>b. (0, 0)) bs"
      if e: "\<forall>b \<in> set bs. batch_recordings db b = []"
    proof -
      have "total_available m' = 0" using e m'(3) by simp
      then have "pct = 0" using pct by (simp add: overall_progress_percent_def)
      moreover have "map (\<lambda>b. (completed_recordings db (u_id u) b, length (batch_recordings db b))) bs =
               map (\<lambda>b. (0, 0)) bs"
        using e by (auto simp: completed_recordings_empty)
      ultimately show ?thesis by simp
    qed
    show ?thesis
      using m' pct z by (auto simp: dashboard_student_def)
  qed
  show ?thesis
    using a1 a6 completed_recordings_count [of db uid b] completed_recordings_empty [of db b uid]
      percent_defined [of L c t]
    by simp
qed

lemmas course_defs = course_db_def marked1_def marked2_def marked3_def sample_defs


text \<open>
  An instance: student 5, enrolled in the empty batch 8, gets (0, 0) and 0 percent;
  student 3 gets (1, 3) after marking recording 1.
\<close>

theorem compute_progress_witness:
  "map (enrollment_batch course_db) (filter (\<lambda>e. e_user_id e = Some 5) (enrollments course_db)) =
     map Some [mk_batch 8 ''Empty'' None] \<and>
   batch_recordings course_db (mk_batch 8 ''Empty'' None) = [] \<and>
   (\<exists>v. dashboard_student sample_lib course_db (mk_user 5 ''e@x'' ''secret'' ''student'') = Inr v \<and>
        sv_progress_counts v = [(0, 0)] \<and> sv_overall_progress_percent v = 0) \<and>
   map (enrollment_batch marked1) (filter (\<lambda>e. e_user_id e = Some 3) (enrollments marked1)) =
     map Some [mk_batch 7 ''B'' None] \<and>
   (\<exists>v. dashboard_student sample_lib marked1 (mk_user 3 ''s@x'' ''secret'' ''student'') = Inr v \<and>
        sv_progress_counts v = [(1, 3)])"
proof -
  let ?u5 = "mk_user 5 ''e@x'' ''secret'' ''student''"
  let ?u3 = "mk_user 3 ''s@x'' ''secret'' ''student''"
  let ?b8 = "mk_batch 8 ''Empty'' None"
  let ?b7 = "mk_batch 7 ''B'' None"
  have id: "u_id ?u5 = 5" "u_id ?u3 = 3" by (simp_all add: mk_user_def)
  have e5: "map (enrollment_batch course_db) (filter (\<lambda>e. e_user_id e = Some 5) (enrollments course_db)) =
     map Some [?b8]"
    by (simp add: enrollment_batch_def get_batch_def course_defs)
  have r8: "batch_recordings course_db ?b8 = []"
    by (simp add: batch_recordings_def course_defs)
  have all8: "\<forall>b \<in> set [?b8]. batch_recordings course_db b = []"
    using r8 by simp
  have cu: "current_user course_db (logged_in 3) = Some ?u3"
    by (simp add: current_user_def get_user_def course_defs)
  have m1: "marked1 = course_db\<lparr>progress :=
      [\<lparr>sp_id = 1, sp_user_id = Some 3, sp_recording_id = Some 1, sp_completed = True,
        sp_completed_at = Some 10\<rparr>]\<rparr>"
    unfolding marked1_def
    by (simp add: update_progress_def cu bind_parameter_def sqlite_integer_def)
      (simp add: course_defs next_id_def)
  have e3: "map (enrollment_batch marked1) (filter (\<lambda>e. e_user_id e = Some 3) (enrollments marked1)) =
     map Some [?b7]"
    unfolding m1 by (simp add: enrollment_batch_def get_batch_def course_defs)
  have n3: "completed_recordings marked1 3 ?b7 = 1" "length (batch_recordings marked1 ?b7) = 3"
    unfolding m1 by (simp_all add: completed_recordings_def batch_recordings_def course_defs)
  have e5': "map (enrollment_batch course_db)
               (filter (\<lambda>e. e_user_id e = Some (u_id ?u5)) (enrollments course_db)) = map Some [?b8]"
    using e5 by (simp only: id)
  have e3': "map (enrollment_batch marked1)
               (filter (\<lambda>e. e_user_id e = Some (u_id ?u3)) (enrollments marked1)) = map Some [?b7]"
    using e3 by (simp only: id)
  from compute_progress_defined [where db = course_db and u = ?u5 and bs = "[?b8]" and L = sample_lib,
      THEN conjunct1, THEN mp, OF e5']
  obtain v where v: "dashboard_student sample_lib course_db ?u5 = Inr v"
    "(\<forall>b \<in> set [?b8]. batch_recordings course_db b = []) \<longrightarrow>
       sv_progress_counts v = map (\<lambda>b. (0, 0)) [?b8] \<and> sv_overall_progress_percent v = 0"
    by blast
  have a: "\<exists>v. dashboard_student sample_lib course_db ?u5 = Inr v \<and>
        sv_progress_counts v = [(0, 0)] \<and> sv_overall_progress_percent v = 0"
    using v all8 by simp
  from compute_progress_defined [where db = marked1 and u = ?u3 and bs = "[?b7]" and L = sample_lib,
      THEN conjunct1, THEN mp, OF e3']
  obtain w where w: "dashboard_student sample_lib marked1 ?u3 = Inr w"
    "sv_progress_counts w =
       map (\<lambda>b. (completed_recordings marked1 (u_id ?u3) b, length (batch_recordings marked1 b))) [?b7]"
    by blast
  have b: "\<exists>v. dashboard_student sample_lib marked1 ?u3 = Inr v \<and> sv_progress_counts v = [(1, 3)]"
    using w n3 by (simp add: id)
  show ?thesis using e5 r8 a e3 b by blast
qed


section \<open>The next lesson\<close>

lemma fold_max_ge:
  "(a::int) \<le> fold max xs a \<and> (\<forall>x \<in> set xs. x \<le> fold max xs a)"
proof (induction xs arbitrary: a)
  case Nil
  then show ?case by simp
next
  case (Cons x xs)
  from Cons.IH [of "max x a"] show ?case by auto
qed

lemma next_id_fresh: "next_id ids \<notin> set ids"
proof
  assume "next_id ids \<in> set ids"
  then have "next_id ids \<le> fold max ids 0" using fold_max_ge [of 0 ids] by blast
  then show False by (simp add: next_id_def)
qed

lemma in_set_mapI: "x \<in> set xs \<Longrightarrow> f x \<in> set (map f xs)"
  by simp

lemma completed_by_iff:
  "completed_by db uid rec =
     (\<exists>p \<in> set (progress db). sp_user_id p = Some uid \<and> sp_recording_id p = Some (r_id rec) \<and> sp_completed p)"
  by (auto simp: completed_by_def find_None_iff)

lemma first_incomplete_Cons:
  "first_incomplete db uid (a # recs) =
     (if completed_by db uid a then first_incomplete db uid recs else Some a)"
  unfolding completed_by_def by auto

lemma first_incomplete_None:
  "(first_incomplete db uid recs = None) = (\<forall>r \<in> set recs. completed_by db uid r)"
  by (induction recs) (auto simp: first_incomplete_Cons simp del: first_incomplete.simps(2))

lemma first_incomplete_Some:
  "(first_incomplete db uid recs = Some r) =
     (\<exists>pre post. recs = pre @ r # post \<and> (\<forall>x \<in> set pre. completed_by db uid x) \<and>
                 \<not> completed_by db uid r)"
proof (induction recs)
  case Nil
  then show ?case by simp
next
  case (Cons a recs)
  show ?case
  proof (cases "completed_by db uid a")
    case True
    then have "first_incomplete db uid (a # recs) = first_incomplete db uid recs"
      by (simp only: first_incomplete_Cons if_True)
    moreover have "(\<exists>pre post. a # recs = pre @ r # post \<and> (\<forall>x \<in> set pre. completed_by db uid x) \<and>
                      \<not> completed_by db uid r) =
                   (\<exists>pre post. recs = pre @ r # post \<and> (\<forall>x \<in> set pre. completed_by db uid x) \<and>
                      \<not> completed_by db uid r)"
    proof
      assume "\<exists>pre post. a # recs = pre @ r # post \<and> (\<forall>x \<in> set pre. completed_by db uid x) \<and>
                \<not> completed_by db uid r"
      then obtain pre post where p: "a # recs = pre @ r # post" "\<forall>x \<in> set pre. completed_by db uid x"
        "\<not> completed_by db uid r" by blast
      with True obtain pre' where "pre = a # pre'" by (cases pre) auto
      with p show "\<exists>pre post. recs = pre @ r # post \<and> (\<forall>x \<in> set pre. completed_by db uid x) \<and>
                \<not> completed_by db uid r" by auto
    next
      assume "\<exists>pre post. recs = pre @ r # post \<and> (\<forall>x \<in> set pre. completed_by db uid x) \<and>
                \<not> completed_by db uid r"
      then obtain pre post where p: "recs = pre @ r # post" "\<forall>x \<in> set pre. completed_by db uid x"
        "\<not> completed_by db uid r" by blast
      then have "a # recs = (a # pre) @ r # post \<and> (\<forall>x \<in> set (a # pre). completed_by db uid x)"
        using True by simp
      with p(3) show "\<exists>pre post. a # recs = pre @ r # post \<and> (\<forall>x \<in> set pre. completed_by db uid x) \<and>
                \<not> completed_by db uid r" by blast
    qed
    ultimately show ?thesis using Cons.IH by simp
  next
    case False
    then have fi: "first_incomplete db uid (a # recs) = Some a"
      by (simp only: first_incomplete_Cons if_False)
    have "(\<exists>pre post. a # recs = pre @ r # post \<and> (\<forall>x \<in> set pre. completed_by db uid x) \<and>
                      \<not> completed_by db uid r) = (a = r)"
    proof
      assume "\<exists>pre post. a # recs = pre @ r # post \<and> (\<forall>x \<in> set pre. completed_by db uid x) \<and>
                \<not> completed_by db uid r"
      then obtain pre post where p: "a # recs = pre @ r # post" "\<forall>x \<in> set pre. completed_by db uid x"
        by blast
      with False show "a = r" by (cases pre) auto
    next
      assume "a = r"
      with False have "a # recs = [] @ r # recs \<and> (\<forall>x \<in> set []. completed_by db uid x) \<and>
                \<not> completed_by db uid r" by simp
      then show "\<exists>pre post. a # recs = pre @ r # post \<and> (\<forall>x \<in> set pre. completed_by db uid x) \<and>
                \<not> completed_by db uid r" by blast
    qed
    with fi show ?thesis by auto
  qed
qed

lemma mark_effect:
  assumes cu: "current_user db s = Some u" and role: "u_role u = ''student''"
    and pk: "progress_pk db" and st: "sqlite_integer rid"
  shows "completed_by (fst (snd (update_progress now db s (JInt rid)))) (u_id u) rec =
           (completed_by db (u_id u) rec \<or> r_id rec = rid)"
    and "progress_pk (fst (snd (update_progress now db s (JInt rid))))"
    and "current_user (fst (snd (update_progress now db s (JInt rid)))) s = Some u"
    and "batch_recordings (fst (snd (update_progress now db s (JInt rid)))) b = batch_recordings db b"
proof -
  let ?db' = "fst (snd (update_progress now db s (JInt rid)))"
  let ?Q = "\<lambda>p. sp_user_id p = Some (u_id u) \<and> sp_recording_id p = Some rid"
  have bind: "bind_parameter (JInt rid) = Inr (Some rid)"
    using st by (rule bind_parameter_storable)
  have other: "users ?db' = users db" "recordings ?db' = recordings db"
    using cu role by (auto simp: update_progress_def bind split: option.splits)
  show "current_user ?db' s = Some u"
    using cu unfolding current_user_def get_user_def other .
  show "batch_recordings ?db' b = batch_recordings db b"
    by (simp add: batch_recordings_def other)
  show "completed_by ?db' (u_id u) rec = (completed_by db (u_id u) rec \<or> r_id rec = rid)"
    and "progress_pk ?db'"
  proof (atomize (full), cases "find ?Q (progress db)")
    case None
    then have p: "progress ?db' = progress db @
        [\<lparr>sp_id = next_id (map sp_id (progress db)), sp_user_id = Some (u_id u),
          sp_recording_id = Some rid, sp_completed = True, sp_completed_at = Some now\<rparr>]"
      using cu role by (simp add: update_progress_def bind)
    show "(completed_by ?db' (u_id u) rec = (completed_by db (u_id u) rec \<or> r_id rec = rid)) \<and>
          progress_pk ?db'"
      using pk next_id_fresh [of "map sp_id (progress db)"]
      by (auto simp: completed_by_iff p progress_pk_def)
  next
    case (Some pr)
    let ?f = "\<lambda>p. if sp_id p = sp_id pr then p\<lparr>sp_completed := True, sp_completed_at := Some now\<rparr> else p"
    have p: "progress ?db' = map ?f (progress db)"
      using cu role Some by (simp add: update_progress_def bind)
    have pr: "pr \<in> set (progress db)" "sp_user_id pr = Some (u_id u)" "sp_recording_id pr = Some rid"
      using Some by (auto simp: find_Some_iff)
    have uniq: "\<And>q. q \<in> set (progress db) \<Longrightarrow> sp_id q = sp_id pr \<Longrightarrow> q = pr"
      using pk pr(1) unfolding progress_pk_def by (meson distinct_map inj_onD)
    have ids: "sp_id \<circ> ?f = sp_id"
      by (rule ext) simp
    have pk': "progress_pk ?db'"
      using pk by (simp add: progress_pk_def p ids)
    have "completed_by ?db' (u_id u) rec = (completed_by db (u_id u) rec \<or> r_id rec = rid)"
      unfolding completed_by_iff p
    proof
      assume "\<exists>q \<in> set (map ?f (progress db)). sp_user_id q = Some (u_id u) \<and>
                sp_recording_id q = Some (r_id rec) \<and> sp_completed q"
      then obtain q where q: "q \<in> set (progress db)" "sp_user_id (?f q) = Some (u_id u)"
        "sp_recording_id (?f q) = Some (r_id rec)" "sp_completed (?f q)" by auto
      show "(\<exists>q \<in> set (progress db). sp_user_id q = Some (u_id u) \<and>
                sp_recording_id q = Some (r_id rec) \<and> sp_completed q) \<or> r_id rec = rid"
      proof (cases "sp_id q = sp_id pr")
        case True
        then have "q = pr" using uniq q(1) by simp
        with q(3) pr(3) show ?thesis by (simp split: if_splits)
      next
        case False
        with q show ?thesis by auto
      qed
    next
      assume a: "(\<exists>q \<in> set (progress db). sp_user_id q = Some (u_id u) \<and>
                sp_recording_id q = Some (r_id rec) \<and> sp_completed q) \<or> r_id rec = rid"
      show "\<exists>q \<in> set (map ?f (progress db)). sp_user_id q = Some (u_id u) \<and>
                sp_recording_id q = Some (r_id rec) \<and> sp_completed q"
      proof (cases "r_id rec = rid")
        case True
        have "?f pr \<in> set (map ?f (progress db))" using in_set_mapI [OF pr(1), of ?f] .
        moreover have "sp_user_id (?f pr) = Some (u_id u) \<and> sp_recording_id (?f pr) = Some (r_id rec) \<and>
                       sp_completed (?f pr)"
          using pr True by simp
        ultimately show ?thesis by blast
      next
        case False
        with a obtain q where q: "q \<in> set (progress db)" "sp_user_id q = Some (u_id u)"
          "sp_recording_id q = Some (r_id rec)" "sp_completed q" by blast
        have "?f q \<in> set (map ?f (progress db))" using in_set_mapI [OF q(1), of ?f] .
        moreover have "sp_user_id (?f q) = Some (u_id u) \<and> sp_recording_id (?f q) = Some (r_id rec) \<and>
                       sp_completed (?f q)"
          using q by simp
        ultimately show ?thesis by blast
      qed
    qed
    with pk' show "(completed_by ?db' (u_id u) rec = (completed_by db (u_id u) rec \<or> r_id rec = rid)) \<and>
          progress_pk ?db'" by simp
  qed
qed

lemma dashboard_single:
  assumes es: "filter (\<lambda>e. e_user_id e = Some (u_id u)) (enrollments db) = [e]"
    and b: "enrollment_batch db e = Some b"
  shows "\<exists>v. dashboard_student L db u = Inr v \<and>
           sv_next_lesson v =
             map_option (\<lambda>rec. \<lparr>batch_name = b_name b, recording_name = r_original_name rec,
                                 recording_id = r_id rec, batch_id = b_id b\<rparr>)
               (first_incomplete db (u_id u)
                  (filter (\<lambda>r. r_batch_id r = Some (b_id b)) (recordings db)))"
proof -
  obtain pct where "overall_progress_percent L (completed_recordings db (u_id u) b)
                      (length (batch_recordings db b)) = Inr pct"
    by (cases "length (batch_recordings db b)")
       (auto simp: overall_progress_percent_def py_percent_def)
  then show ?thesis
    using b by (simp add: dashboard_student_def es Let_def batch_recordings_def)
qed

lemma three_recordings:
  assumes cu: "current_user db s = Some u" and role: "u_role u = ''student''"
    and pk: "progress_pk db" and ids: "recording_ids_storable db"
    and recs: "batch_recordings db b = [r1, r2, r3]"
    and d: "distinct [r_id r1, r_id r2, r_id r3]"
    and n: "\<not> completed_by db (u_id u) r1" "\<not> completed_by db (u_id u) r2"
      "\<not> completed_by db (u_id u) r3"
  shows "(let db1 = fst (snd (update_progress n1 db s (JInt (r_id r1))));
              db2 = fst (snd (update_progress n2 db1 s (JInt (r_id r2))));
              db3 = fst (snd (update_progress n3 db2 s (JInt (r_id r3))))
          in first_incomplete db (u_id u) (batch_recordings db b) = Some r1 \<and>
             first_incomplete db1 (u_id u) (batch_recordings db1 b) = Some r2 \<and>
             first_incomplete db2 (u_id u) (batch_recordings db2 b) = Some r3 \<and>
             first_incomplete db3 (u_id u) (batch_recordings db3 b) = None)"
proof -
  let ?db1 = "fst (snd (update_progress n1 db s (JInt (r_id r1))))"
  let ?db2 = "fst (snd (update_progress n2 ?db1 s (JInt (r_id r2))))"
  let ?db3 = "fst (snd (update_progress n3 ?db2 s (JInt (r_id r3))))"
  have "set (batch_recordings db b) \<subseteq> set (recordings db)"
    by (auto simp: batch_recordings_def)
  then have st: "sqlite_integer (r_id r1)" "sqlite_integer (r_id r2)" "sqlite_integer (r_id r3)"
    using ids unfolding recs recording_ids_storable_def list_all_iff by auto
  note m1 = mark_effect [OF cu role pk st(1), of n1]
  note m2 = mark_effect [OF m1(3) role m1(2) st(2), of n2]
  note m3 = mark_effect [OF m2(3) role m2(2) st(3), of n3]
  have r1: "batch_recordings ?db1 b = [r1, r2, r3]" using m1(4) [of b] recs by simp
  have r2: "batch_recordings ?db2 b = [r1, r2, r3]" using m2(4) [of b] r1 by simp
  have r3: "batch_recordings ?db3 b = [r1, r2, r3]" using m3(4) [of b] r2 by simp
  have c1: "completed_by ?db1 (u_id u) r1" "\<not> completed_by ?db1 (u_id u) r2"
    "\<not> completed_by ?db1 (u_id u) r3"
    using m1(1) n d by auto
  have c2: "completed_by ?db2 (u_id u) r1" "completed_by ?db2 (u_id u) r2"
    "\<not> completed_by ?db2 (u_id u) r3"
    using m2(1) c1 d by auto
  have c3: "completed_by ?db3 (u_id u) r1" "completed_by ?db3 (u_id u) r2"
    "completed_by ?db3 (u_id u) r3"
    using m3(1) c2 by auto
  have "first_incomplete db (u_id u) (batch_recordings db b) = Some r1"
    unfolding recs using n by (simp only: first_incomplete_Cons if_False)
  moreover have "first_incomplete ?db1 (u_id u) (batch_recordings ?db1 b) = Some r2"
    unfolding r1 using c1 by (simp only: first_incomplete_Cons if_True if_False)
  moreover have "first_incomplete ?db2 (u_id u) (batch_recordings ?db2 b) = Some r3"
    unfolding r2 using c2 by (simp only: first_incomplete_Cons if_True if_False)
  moreover have "first_incomplete ?db3 (u_id u) (batch_recordings ?db3 b) = None"
    unfolding r3 using c3 by (simp only: first_incomplete_Cons if_True first_incomplete.simps(1))
  ultimately show ?thesis by (simp only: Let_def)
qed


text \<open>
  C6. The loop over the batch's recordings, which are the rows of the recordings
  table in its stored (insertion) order, returns the first recording for which the
  student has no completed progress row: \<open>None\<close> exactly when every recording is
  complete (so also for an empty batch), and \<open>Some r\<close> exactly when \<open>r\<close> is not
  complete and every recording before it is. For a student with one enrollment this is
  the dashboard's next lesson. In a batch of three recordings (their ids being ones
  SQLite can store, as the ids of stored rows are) the student starts at the first, is
  at the second after marking the first, at the third after marking the second, and
  gets \<open>None\<close> after marking all three.
\<close>

theorem next_incomplete_lesson:
  "((first_incomplete db uid recs = None) = (\<forall>r \<in> set recs. completed_by db uid r)) \<and>
   ((first_incomplete db uid recs = Some r) =
      (\<exists>pre post. recs = pre @ r # post \<and> (\<forall>x \<in> set pre. completed_by db uid x) \<and>
                  \<not> completed_by db uid r)) \<and>
   (filter (\<lambda>e. e_user_id e = Some (u_id u)) (enrollments db) = [e] \<and>
    enrollment_batch db e = Some b \<longrightarrow>
      (\<exists>v. dashboard_student L db u = Inr v \<and>
           sv_next_lesson v =
             map_option (\<lambda>rec. \<lparr>batch_name = b_name b, recording_name = r_original_name rec,
                                 recording_id = r_id rec, batch_id = b_id b\<rparr>)
               (first_incomplete db (u_id u)
                  (filter (\<lambda>r. r_batch_id r = Some (b_id b)) (recordings db))))) \<and>
   (current_user db s = Some u \<and> u_role u = ''student'' \<and> progress_pk db \<and>
    recording_ids_storable db \<and>
    batch_recordings db b = [ra, rb, rc] \<and> distinct [r_id ra, r_id rb, r_id rc] \<and>
    \<not> completed_by db (u_id u) ra \<and> \<not> completed_by db (u_id u) rb \<and>
    \<not> completed_by db (u_id u) rc \<longrightarrow>
      (let db1 = fst (snd (update_progress ta db s (JInt (r_id ra))));
           db2 = fst (snd (update_progress tb db1 s (JInt (r_id rb))));
           db3 = fst (snd (update_progress tc db2 s (JInt (r_id rc))))
       in first_incomplete db (u_id u) (batch_recordings db b) = Some ra \<and>
          first_incomplete db1 (u_id u) (batch_recordings db1 b) = Some rb \<and>
          first_incomplete db2 (u_id u) (batch_recordings db2 b) = Some rc \<and>
          first_incomplete db3 (u_id u) (batch_recordings db3 b) = None))"
  using first_incomplete_None [of db uid recs] first_incomplete_Some [of db uid recs r]
    dashboard_single [of u db e b L] three_recordings [of db s u b ra rb rc ta tb tc]
  by blast

text \<open>An instance: student 3 in batch 7 with the recordings 1, 2, 3.\<close>

theorem next_incomplete_lesson_witness:
  "current_user course_db (logged_in 3) = Some (mk_user 3 ''s@x'' ''secret'' ''student'') \<and>
   progress_pk course_db \<and>
   recording_ids_storable course_db \<and>
   batch_recordings course_db (mk_batch 7 ''B'' None) =
     [mk_recording 1 ''r1'' 7, mk_recording 2 ''r2'' 7, mk_recording 3 ''r3'' 7] \<and>
   first_incomplete course_db 3 (batch_recordings course_db (mk_batch 7 ''B'' None)) =
     Some (mk_recording 1 ''r1'' 7) \<and>
   first_incomplete marked1 3 (batch_recordings marked1 (mk_batch 7 ''B'' None)) =
     Some (mk_recording 2 ''r2'' 7) \<and>
   first_incomplete marked2 3 (batch_recordings marked2 (mk_batch 7 ''B'' None)) =
     Some (mk_recording 3 ''r3'' 7) \<and>
   first_incomplete marked3 3 (batch_recordings marked3 (mk_batch 7 ''B'' None)) = None"
proof -
  let ?u3 = "mk_user 3 ''s@x'' ''secret'' ''student''"
  let ?b7 = "mk_batch 7 ''B'' None"
  let ?r1 = "mk_recording 1 ''r1'' 7"
  let ?r2 = "mk_recording 2 ''r2'' 7"
  let ?r3 = "mk_recording 3 ''r3'' 7"
  have id: "u_id ?u3 = 3" "r_id ?r1 = 1" "r_id ?r2 = 2" "r_id ?r3 = 3"
    by (simp_all add: mk_user_def mk_recording_def)
  have cu: "current_user course_db (logged_in 3) = Some ?u3"
    by (simp add: current_user_def get_user_def course_defs)
  have role: "u_role ?u3 = ''student''" by (simp add: mk_user_def)
  have pk: "progress_pk course_db" by (simp add: progress_pk_def course_defs)
  have ids: "recording_ids_storable course_db"
    by (simp add: recording_ids_storable_def sqlite_integer_def course_defs)
  have recs: "batch_recordings course_db ?b7 = [?r1, ?r2, ?r3]"
    by (simp add: batch_recordings_def course_defs)
  have d: "distinct [r_id ?r1, r_id ?r2, r_id ?r3]" by (simp add: id)
  have n: "\<not> completed_by course_db (u_id ?u3) ?r1" "\<not> completed_by course_db (u_id ?u3) ?r2"
    "\<not> completed_by course_db (u_id ?u3) ?r3"
    by (simp_all add: completed_by_def course_defs)
  have h: "current_user course_db (logged_in 3) = Some ?u3 \<and> u_role ?u3 = ''student'' \<and>
    progress_pk course_db \<and> recording_ids_storable course_db \<and>
    batch_recordings course_db ?b7 = [?r1, ?r2, ?r3] \<and>
    distinct [r_id ?r1, r_id ?r2, r_id ?r3] \<and>
    \<not> completed_by course_db (u_id ?u3) ?r1 \<and> \<not> completed_by course_db (u_id ?u3) ?r2 \<and>
    \<not> completed_by course_db (u_id ?u3) ?r3"
    using cu role pk ids recs d n by blast
  note t = next_incomplete_lesson [where db = course_db and u = ?u3 and b = ?b7
        and s = "logged_in 3" and ra = ?r1 and rb = ?r2 and rc = ?r3 and ta = 10 and tb = 20 and tc = 30,
      THEN conjunct2, THEN conjunct2, THEN conjunct2, THEN mp, OF h]
  have "first_incomplete course_db 3 (batch_recordings course_db ?b7) = Some ?r1 \<and>
        first_incomplete marked1 3 (batch_recordings marked1 ?b7) = Some ?r2 \<and>
        first_incomplete marked2 3 (batch_recordings marked2 ?b7) = Some ?r3 \<and>
        first_incomplete marked3 3 (batch_recordings marked3 ?b7) = None"
    using t unfolding Let_def id marked1_def marked2_def marked3_def .
  then show ?thesis using cu pk ids recs by blast
qed

end
